theory Spec2Isabelle
  imports Complex_Main
begin

section \<open>Python values and the dynamic operations the source applies to them\<close>

text \<open>
  The program is a Python script: \<^verbatim>\<open>fetch_cuisine_reservations\<close> drives one cuisine's
  paginated search against the upstream HTTP API, \<^verbatim>\<open>fetch_available_reservations\<close> fans the
  search out over all cuisines and merges the results. The responses are decoded JSON,
  accessed dynamically, so every subscript, \<^verbatim>\<open>.get\<close>, \<^verbatim>\<open>in\<close> and conversion can raise.
  A \<open>char\<close> stands for a code point below 256; a \<open>string\<close> is a Python \<^verbatim>\<open>str\<close>.
\<close>

datatype py_exn = KeyError | TypeError | AttributeError | IndexError | ValueError | OverflowError

datatype pyfloat = Finite rat | PosInf | NegInf | NotANumber

text \<open>A decoded JSON document. An object keeps its keys in document order; keys are distinct.\<close>

datatype json =
    JNull
  | JBool bool
  | JInt int
  | JFloat pyfloat
  | JStr string
  | JArr "json list"
  | JObj "(string \<times> json) list"

text \<open>\<^verbatim>\<open>str.isspace\<close> and the regular expression class \<^verbatim>\<open>\s\<close> on code points below 256.\<close>

definition py_isspace :: "char \<Rightarrow> bool" where
  "py_isspace c =
     (let n = (of_char c :: nat)
      in (9 \<le> n \<and> n \<le> 13) \<or> (28 \<le> n \<and> n \<le> 32) \<or> n = 133 \<or> n = 160)"

definition is_digit :: "char \<Rightarrow> bool" where
  "is_digit c = (c \<in> set ''0123456789'')"

definition digit_val :: "char \<Rightarrow> nat" where
  "digit_val c = (of_char c :: nat) - 48"

definition digit_char :: "nat \<Rightarrow> char" where
  "digit_char d = ''0123456789'' ! (d mod 10)"

fun str_nat :: "nat \<Rightarrow> string" where
  "str_nat n = (if n < 10 then [digit_char n] else str_nat (n div 10) @ [digit_char (n mod 10)])"

declare str_nat.simps [simp del]

text \<open>\<^verbatim>\<open>str(i)\<close> of an \<^verbatim>\<open>int\<close>, as an f-string formats it.\<close>

definition str_int :: "int \<Rightarrow> string" where
  "str_int i = (if i < 0 then CHR ''-'' # str_nat (nat (- i)) else str_nat (nat i))"

text \<open>\<^verbatim>\<open>s.strip()\<close>.\<close>

definition py_strip :: "string \<Rightarrow> string" where
  "py_strip s = rev (dropWhile py_isspace (rev (dropWhile py_isspace s)))"

fun is_prefix :: "'a list \<Rightarrow> 'a list \<Rightarrow> bool" where
  "is_prefix [] ys = True"
| "is_prefix (x # xs) [] = False"
| "is_prefix (x # xs) (y # ys) = (x = y \<and> is_prefix xs ys)"

fun is_substr :: "'a list \<Rightarrow> 'a list \<Rightarrow> bool" where
  "is_substr k [] = (k = [])"
| "is_substr k (y # ys) = (is_prefix k (y # ys) \<or> is_substr k ys)"

text \<open>
  \<^verbatim>\<open>k in v\<close> for a string \<open>k\<close>: key membership in a dict, element membership in a list,
  substring test in a string, \<^verbatim>\<open>TypeError\<close> on anything that is not a container.
\<close>

fun py_contains :: "string \<Rightarrow> json \<Rightarrow> py_exn + bool" where
  "py_contains k (JObj kvs) = Inr (k \<in> set (map fst kvs))"
| "py_contains k (JArr xs) = Inr (JStr k \<in> set xs)"
| "py_contains k (JStr s) = Inr (is_substr k s)"
| "py_contains k _ = Inl TypeError"

text \<open>\<^verbatim>\<open>v[k]\<close> for a string key \<open>k\<close>.\<close>

fun py_getitem :: "json \<Rightarrow> string \<Rightarrow> py_exn + json" where
  "py_getitem (JObj kvs) k = (case map_of kvs k of None \<Rightarrow> Inl KeyError | Some v \<Rightarrow> Inr v)"
| "py_getitem _ k = Inl TypeError"

text \<open>\<^verbatim>\<open>v[0]\<close>. The keys of a decoded JSON object are strings, so \<^verbatim>\<open>0\<close> is never a key.\<close>

fun py_getitem0 :: "json \<Rightarrow> py_exn + json" where
  "py_getitem0 (JArr []) = Inl IndexError"
| "py_getitem0 (JArr (x # xs)) = Inr x"
| "py_getitem0 (JStr []) = Inl IndexError"
| "py_getitem0 (JStr (c # cs)) = Inr (JStr [c])"
| "py_getitem0 (JObj kvs) = Inl KeyError"
| "py_getitem0 _ = Inl TypeError"

text \<open>\<^verbatim>\<open>v.get(k, d)\<close>: only a dict has the method.\<close>

fun py_get :: "json \<Rightarrow> string \<Rightarrow> json \<Rightarrow> py_exn + json" where
  "py_get (JObj kvs) k d = Inr (case map_of kvs k of None \<Rightarrow> d | Some v \<Rightarrow> v)"
| "py_get _ k d = Inl AttributeError"

text \<open>\<^verbatim>\<open>v.strip()\<close>: only a string has the method.\<close>

fun py_strip_method :: "json \<Rightarrow> py_exn + string" where
  "py_strip_method (JStr s) = Inr (py_strip s)"
| "py_strip_method _ = Inl AttributeError"

text \<open>
  \<^verbatim>\<open>"$" * v\<close>: a string is repeated by an \<^verbatim>\<open>int\<close> (or a \<^verbatim>\<open>bool\<close>), by nothing else. A
  count beyond \<^verbatim>\<open>sys.maxsize\<close> (of a 64-bit build) raises \<^verbatim>\<open>OverflowError\<close>; running out
  of memory on a smaller count depends on the machine and is not modelled.
\<close>

fun py_repeat_dollar :: "json \<Rightarrow> py_exn + string" where
  "py_repeat_dollar (JInt n) =
     (if n > 9223372036854775807 then Inl OverflowError
      else Inr (replicate (nat n) CHR ''$''))"
| "py_repeat_dollar (JBool b) = Inr (if b then ''$'' else [])"
| "py_repeat_dollar _ = Inl TypeError"

text \<open>The items a \<^verbatim>\<open>for\<close> loop over \<open>v\<close> visits: elements, characters, or keys.\<close>

fun py_iter :: "json \<Rightarrow> py_exn + json list" where
  "py_iter (JArr xs) = Inr xs"
| "py_iter (JStr s) = Inr (map (\<lambda>c. JStr [c]) s)"
| "py_iter (JObj kvs) = Inr (map (\<lambda>kv. JStr (fst kv)) kvs)"
| "py_iter _ = Inl TypeError"

text \<open>
  \<^verbatim>\<open>int(s)\<close> of a string: surrounding whitespace stripped, an optional sign, then decimal
  digits, single underscores allowed between digits. The whitespace \<^verbatim>\<open>int\<close> strips is
  that of \<^verbatim>\<open>str.strip\<close> without the separators U+001C to U+001F, and a string of more than
  4300 digits raises \<^verbatim>\<open>ValueError\<close> (the default limit of CPython 3.11).
\<close>

definition int_isspace :: "char \<Rightarrow> bool" where
  "int_isspace c =
     (let n = (of_char c :: nat)
      in (9 \<le> n \<and> n \<le> 13) \<or> n = 32 \<or> n = 133 \<or> n = 160)"

fun digits_value :: "nat \<Rightarrow> bool \<Rightarrow> string \<Rightarrow> nat option" where
  "digits_value acc after_digit [] = (if after_digit then Some acc else None)"
| "digits_value acc after_digit (c # cs) =
     (if is_digit c then digits_value (10 * acc + digit_val c) True cs
      else if c = CHR ''_'' \<and> after_digit then digits_value acc False cs
      else None)"

definition limited_digits_value :: "string \<Rightarrow> nat option" where
  "limited_digits_value cs =
     (if length (filter is_digit cs) > 4300 then None else digits_value 0 False cs)"

definition py_int_of_str :: "string \<Rightarrow> int option" where
  "py_int_of_str s =
     (case rev (dropWhile int_isspace (rev (dropWhile int_isspace s))) of
        [] \<Rightarrow> None
      | c # cs \<Rightarrow>
          if c = CHR ''-'' then map_option (\<lambda>n. - int n) (limited_digits_value cs)
          else if c = CHR ''+'' then map_option int (limited_digits_value cs)
          else map_option int (limited_digits_value (c # cs)))"

text \<open>\<^verbatim>\<open>int(v)\<close>: truncation toward zero on a float.\<close>

fun py_int :: "json \<Rightarrow> py_exn + int" where
  "py_int (JInt n) = Inr n"
| "py_int (JBool b) = Inr (if b then 1 else 0)"
| "py_int (JFloat (Finite q)) = Inr (if 0 \<le> q then \<lfloor>q\<rfloor> else \<lceil>q\<rceil>)"
| "py_int (JFloat NotANumber) = Inl ValueError"
| "py_int (JFloat _) = Inl OverflowError"
| "py_int (JStr s) = (case py_int_of_str s of None \<Rightarrow> Inl ValueError | Some n \<Rightarrow> Inr n)"
| "py_int _ = Inl TypeError"

section \<open>The time filter\<close>

text \<open>
  \<^verbatim>\<open>datetime.strptime(target_time, "%I:%M %p").strftime("%H:%M")\<close>. The format compiles to
  the regular expression
  \<^verbatim>\<open>(?P<I>1[0-2]|0[1-9]|[1-9]):(?P<M>[0-5]\d|\d)\s+(?P<p>am|pm)\<close>, matched case-insensitively
  at the start of the string (English AM/PM markers); the whole string must be consumed.
  Each group lists its alternatives in the order the matcher tries them.
\<close>

definition alts_I :: "string \<Rightarrow> (nat \<times> string) list" where
  "alts_I s =
     (case s of
        a # b # r \<Rightarrow>
          (if a = CHR ''1'' \<and> b \<in> set ''012'' then [(10 + digit_val b, r)] else []) @
          (if a = CHR ''0'' \<and> b \<in> set ''123456789'' then [(digit_val b, r)] else [])
      | _ \<Rightarrow> []) @
     (case s of
        a # r \<Rightarrow> if a \<in> set ''123456789'' then [(digit_val a, r)] else []
      | [] \<Rightarrow> [])"

definition alts_M :: "string \<Rightarrow> (nat \<times> string) list" where
  "alts_M s =
     (case s of
        a # b # r \<Rightarrow>
          if a \<in> set ''012345'' \<and> is_digit b then [(10 * digit_val a + digit_val b, r)] else []
      | _ \<Rightarrow> []) @
     (case s of
        a # r \<Rightarrow> if is_digit a then [(digit_val a, r)] else []
      | [] \<Rightarrow> [])"

definition lit_colon :: "string \<Rightarrow> string list" where
  "lit_colon s = (case s of c # r \<Rightarrow> if c = CHR '':'' then [r] else [] | [] \<Rightarrow> [])"

text \<open>\<^verbatim>\<open>\s+\<close> is followed by a letter, so only the greedy match can succeed.\<close>

definition ws_plus :: "string \<Rightarrow> string list" where
  "ws_plus s =
     (case s of c # r \<Rightarrow> if py_isspace c then [dropWhile py_isspace r] else [] | [] \<Rightarrow> [])"

text \<open>The marker: \<open>True\<close> is PM.\<close>

definition alts_p :: "string \<Rightarrow> (bool \<times> string) list" where
  "alts_p s =
     (case s of
        a # b # r \<Rightarrow>
          (if a \<in> set ''aA'' \<and> b \<in> set ''mM'' then [(False, r)] else []) @
          (if a \<in> set ''pP'' \<and> b \<in> set ''mM'' then [(True, r)] else [])
      | _ \<Rightarrow> [])"

definition regex_12h :: "string \<Rightarrow> (nat \<times> nat \<times> bool \<times> string) list" where
  "regex_12h s =
     concat (map (\<lambda>(h, r1).
       concat (map (\<lambda>r2.
         concat (map (\<lambda>(m, r3).
           concat (map (\<lambda>r4.
             map (\<lambda>(p, r5). (h, m, p, r5)) (alts_p r4))
           (ws_plus r3)))
         (alts_M r2)))
       (lit_colon r1)))
     (alts_I s))"

definition two_digits :: "nat \<Rightarrow> string" where
  "two_digits n = [digit_char (n div 10), digit_char n]"

text \<open>The 24-hour \<^verbatim>\<open>"HH:MM"\<close> string, or \<open>None\<close> where \<^verbatim>\<open>strptime\<close> raises \<^verbatim>\<open>ValueError\<close>.\<close>

definition strptime_12h :: "string \<Rightarrow> string option" where
  "strptime_12h s =
     (case regex_12h s of
        [] \<Rightarrow> None
      | (h, m, p, rest) # _ \<Rightarrow>
          if rest \<noteq> [] then None
          else
            let hour = (if p then (if h \<noteq> 12 then h + 12 else h) else (if h = 12 then 0 else h))
            in Some (two_digits hour @ '':'' @ two_digits m))"

section \<open>Building reservation records from one page of hits\<close>

definition then_exn :: "py_exn + 'a \<Rightarrow> ('a \<Rightarrow> py_exn + 'b) \<Rightarrow> py_exn + 'b" where
  "then_exn m f = (case m of Inl e \<Rightarrow> Inl e | Inr x \<Rightarrow> f x)"

text \<open>
  What the model takes from the Python runtime as it is: \<open>repr_value\<close> is \<^verbatim>\<open>str(v)\<close> of a
  float, list or dict; \<open>localize_start s\<close> is the pair of \<^verbatim>\<open>strftime("%Y-%m-%d")\<close> and
  \<^verbatim>\<open>strftime("%I:%M %p")\<close> of
  \<^verbatim>\<open>NY_TZ.localize(datetime.strptime(s, "%Y-%m-%d %H:%M:%S"))\<close>, or \<open>None\<close> where
  \<^verbatim>\<open>strptime\<close> raises \<^verbatim>\<open>ValueError\<close>.
\<close>

record runtime =
  repr_value :: "json \<Rightarrow> string"
  localize_start :: "string \<Rightarrow> (string \<times> string) option"

text \<open>A value interpolated into an f-string.\<close>

fun py_format :: "runtime \<Rightarrow> json \<Rightarrow> string" where
  "py_format rt (JStr s) = s"
| "py_format rt (JInt n) = str_int n"
| "py_format rt JNull = ''None''"
| "py_format rt (JBool b) = (if b then ''True'' else ''False'')"
| "py_format rt v = repr_value rt v"

text \<open>The dict appended to \<^verbatim>\<open>all_reservations\<close> for one slot.\<close>

record reservation =
  Venue_Name :: json
  Neighborhood :: string
  Rating :: json
  Total_Ratings :: json
  Price_Range :: string
  Cuisine_Type :: json
  Date :: string
  Time_NYC :: string
  Table_Size :: int
  Dining_Type :: json
  Reservation_Link :: string
  Latitude :: json
  Longitude :: json
  Icon_Image :: json

text \<open>The local variables the source reads from one hit before it loops over the slots.\<close>

record venue =
  venue_name :: json
  neighborhood :: string
  slug :: json
  rating :: json
  total_ratings :: json
  price_range :: json
  cuisine_type :: json
  latitude :: json
  longitude :: json
  icon_image :: json

definition placeholder_image :: string where
  "placeholder_image = ''https://img.freepik.com/premium-vector/cartoon-orange_24381-186.jpg''"

text \<open>
  The statements from \<^verbatim>\<open>venue_name = restaurant["name"]\<close> to the evaluation of the iterable of
  the slot loop, in source order. Only the icon image sits in a \<^verbatim>\<open>try\<close> with a bare
  \<^verbatim>\<open>except\<close>.
\<close>

definition hit_fields :: "json \<Rightarrow> py_exn + venue \<times> json list" where
  "hit_fields restaurant =
     then_exn (py_getitem restaurant ''name'') (\<lambda>name.
     then_exn (then_exn (py_getitem restaurant ''neighborhood'') py_strip_method) (\<lambda>nbh.
     then_exn (py_getitem restaurant ''url_slug'') (\<lambda>slg.
     then_exn (then_exn (py_get restaurant ''rating'' (JObj []))
                 (\<lambda>r. py_get r ''average'' (JStr ''N/A''))) (\<lambda>avg.
     then_exn (then_exn (py_get restaurant ''rating'' (JObj []))
                 (\<lambda>r. py_get r ''count'' (JStr ''N/A''))) (\<lambda>cnt.
     then_exn (py_get restaurant ''price_range_id'' (JInt 0)) (\<lambda>price.
     then_exn (then_exn (py_get restaurant ''cuisine'' (JArr [JStr ''Unknown''])) py_getitem0)
       (\<lambda>ctype.
     then_exn (then_exn (py_getitem restaurant ''_geoloc'') (\<lambda>g. py_getitem g ''lat'')) (\<lambda>lat.
     then_exn (then_exn (py_getitem restaurant ''_geoloc'') (\<lambda>g. py_getitem g ''lng'')) (\<lambda>lng.
     let img = (case then_exn (py_getitem restaurant ''images'') py_getitem0 of
                  Inl e \<Rightarrow> JStr placeholder_image
                | Inr v \<Rightarrow> v)
     in
     then_exn (then_exn (then_exn (py_get restaurant ''availability'' (JObj []))
                 (\<lambda>a. py_get a ''slots'' (JArr []))) py_iter) (\<lambda>slots.
     Inr (\<lparr>venue_name = name, neighborhood = nbh, slug = slg, rating = avg,
            total_ratings = cnt, price_range = price, cuisine_type = ctype,
            latitude = lat, longitude = lng, icon_image = img\<rparr>, slots)))))))))))"

definition reservation_link :: "runtime \<Rightarrow> json \<Rightarrow> string \<Rightarrow> int \<Rightarrow> string" where
  "reservation_link rt slg day party_size =
     ''https://resy.com/cities/new-york-ny/venues/'' @ py_format rt slg @
     ''?date='' @ day @ ''&seats='' @ str_int party_size"

definition slot_start :: "runtime \<Rightarrow> json \<Rightarrow> py_exn + string \<times> string" where
  "slot_start rt v =
     (case v of
        JStr s \<Rightarrow> (case localize_start rt s of None \<Rightarrow> Inl ValueError | Some dt \<Rightarrow> Inr dt)
      | _ \<Rightarrow> Inl TypeError)"

text \<open>The body of the slot loop: the record of one slot, or the exception it raises.\<close>

definition slot_record ::
  "runtime \<Rightarrow> string \<Rightarrow> int \<Rightarrow> venue \<Rightarrow> json \<Rightarrow> py_exn + reservation" where
  "slot_record rt day party_size v slot =
     then_exn (then_exn (then_exn (py_getitem slot ''date'') (\<lambda>d. py_getitem d ''start''))
                 (slot_start rt)) (\<lambda>dt.
     then_exn (py_repeat_dollar (price_range v)) (\<lambda>price.
     then_exn (then_exn (py_getitem slot ''config'') (\<lambda>c. py_getitem c ''type'')) (\<lambda>dining.
     Inr \<lparr>Venue_Name = venue_name v, Neighborhood = neighborhood v, Rating = rating v,
          Total_Ratings = total_ratings v, Price_Range = price,
          Cuisine_Type = cuisine_type v, Date = fst dt, Time_NYC = snd dt,
          Table_Size = party_size, Dining_Type = dining,
          Reservation_Link = reservation_link rt (slug v) day party_size,
          Latitude = latitude v, Longitude = longitude v, Icon_Image = icon_image v\<rparr>)))"

text \<open>
  The loops append to the list \<^verbatim>\<open>all_reservations\<close> in place: they return the list as it
  stands when they end, and the exception that ended them early, if any.
\<close>

fun slot_loop ::
  "runtime \<Rightarrow> string \<Rightarrow> int \<Rightarrow> venue \<Rightarrow> json list \<Rightarrow> reservation list
    \<Rightarrow> py_exn option \<times> reservation list" where
  "slot_loop rt day party_size v [] acc = (None, acc)"
| "slot_loop rt day party_size v (slot # slots) acc =
     (case slot_record rt day party_size v slot of
        Inl e \<Rightarrow> (Some e, acc)
      | Inr r \<Rightarrow> slot_loop rt day party_size v slots (acc @ [r]))"

fun hit_loop ::
  "runtime \<Rightarrow> string \<Rightarrow> int \<Rightarrow> json list \<Rightarrow> reservation list
    \<Rightarrow> py_exn option \<times> reservation list" where
  "hit_loop rt day party_size [] acc = (None, acc)"
| "hit_loop rt day party_size (restaurant # hits) acc =
     (case hit_fields restaurant of
        Inl e \<Rightarrow> (Some e, acc)
      | Inr (v, slots) \<Rightarrow>
          (case slot_loop rt day party_size v slots acc of
             (Some e, acc') \<Rightarrow> (Some e, acc')
           | (None, acc') \<Rightarrow> hit_loop rt day party_size hits acc'))"

section \<open>The network and the state of one worker\<close>

text \<open>
  The JSON body of a request. The source also sends the constants \<^verbatim>\<open>availability\<close>,
  \<^verbatim>\<open>per_page\<close>, \<^verbatim>\<open>types\<close>, \<^verbatim>\<open>order_by\<close> and \<^verbatim>\<open>geo\<close>, which never change.
\<close>

record payload =
  pl_page :: int
  pl_day :: string
  pl_party_size :: int
  pl_time_filter :: "string option"
  pl_cuisine :: string

text \<open>
  \<^verbatim>\<open>requests.post\<close> raises a \<^verbatim>\<open>RequestException\<close> or returns a response, of which the
  source reads the status code and \<^verbatim>\<open>response.json()\<close>: the decoded body, or \<open>None\<close> where
  decoding raises \<^verbatim>\<open>ValueError\<close>.
\<close>

datatype http_outcome = RequestException | Response int "json option"

text \<open>
  What a worker does to the outside world, in order: a \<^verbatim>\<open>requests.post\<close> (with the
  \<^verbatim>\<open>timeout\<close> argument, if it passes one, and the outcome it met) or a \<^verbatim>\<open>time.sleep\<close>.
\<close>

datatype event = Post payload "int option" http_outcome | Sleep int

text \<open>
  The upstream as one worker meets it: the outcome of its \<open>n\<close>-th request (from 0), which
  may depend on the payload sent.
\<close>

type_synonym network = "nat \<Rightarrow> payload \<Rightarrow> http_outcome"

record wstate =
  trace :: "event list"
  all_reservations :: "reservation list"

fun is_post :: "event \<Rightarrow> bool" where
  "is_post (Post pl t out) = True"
| "is_post (Sleep d) = False"

definition posts :: "wstate \<Rightarrow> event list" where
  "posts st = filter is_post (trace st)"

text \<open>The requests of the pagination loop are the ones sent without a timeout.\<close>

fun is_page_fetch :: "event \<Rightarrow> bool" where
  "is_page_fetch (Post pl None out) = True"
| "is_page_fetch _ = False"

definition page_fetches :: "wstate \<Rightarrow> event list" where
  "page_fetches st = filter is_page_fetch (trace st)"

text \<open>The page numbers the pagination loop asks for, in order.\<close>

fun fetched_page :: "event \<Rightarrow> int list" where
  "fetched_page (Post pl None out) = [pl_page pl]"
| "fetched_page _ = []"

definition fetched_pages :: "wstate \<Rightarrow> int list" where
  "fetched_pages st = concat (map fetched_page (trace st))"

fun sleep_of :: "event \<Rightarrow> int list" where
  "sleep_of (Post pl t out) = []"
| "sleep_of (Sleep d) = [d]"

definition sleeps :: "wstate \<Rightarrow> int list" where
  "sleeps st = concat (map sleep_of (trace st))"

definition requests_post ::
  "network \<Rightarrow> payload \<Rightarrow> int option \<Rightarrow> wstate \<Rightarrow> http_outcome \<times> wstate" where
  "requests_post net pl t st =
     (let out = net (length (posts st)) pl
      in (out, st\<lparr>trace := trace st @ [Post pl t out]\<rparr>))"

definition time_sleep :: "int \<Rightarrow> wstate \<Rightarrow> wstate" where
  "time_sleep d st = st\<lparr>trace := trace st @ [Sleep d]\<rparr>"

section \<open>Constants\<close>

definition MAX_RETRIES :: int where
  "MAX_RETRIES = 3"

definition RETRY_DELAY :: "int \<times> int" where
  "RETRY_DELAY = (2, 5)"

definition CUISINES :: "string list" where
  "CUISINES =
     [''American'', ''Chinese'', ''Cocktail Bar'', ''French'', ''Indian'', ''Italian'',
      ''Japanese'', ''Korean'', ''Mediterranean'', ''Mexican'', ''New American'',
      ''Seafood'', ''Steakhouse'', ''Sushi'', ''Thai'']"

text \<open>\<^verbatim>\<open>min(RETRY_DELAY) + (attempt * 1)\<close>, the argument of both \<^verbatim>\<open>time.sleep\<close> calls.\<close>

definition retry_delay :: "int \<Rightarrow> int" where
  "retry_delay attempt = min (fst RETRY_DELAY) (snd RETRY_DELAY) + (attempt * 1)"

section \<open>The worker: \<^verbatim>\<open>fetch_cuisine_reservations\<close>\<close>

text \<open>How a block of the worker ends: normally, by a \<^verbatim>\<open>RequestException\<close> (which the
  \<^verbatim>\<open>except\<close> clause of the retry loop catches), or by another exception (which nothing in
  the worker catches).\<close>

datatype ctl = Normal | ReqExc | Uncaught py_exn

text \<open>\<^verbatim>\<open>"search" not in results or "hits" not in results["search"]\<close>.\<close>

definition no_hits :: "json \<Rightarrow> py_exn + bool" where
  "no_hits results =
     then_exn (py_contains ''search'' results) (\<lambda>b.
       if \<not> b then Inr True
       else then_exn (py_getitem results ''search'') (\<lambda>s.
            then_exn (py_contains ''hits'' s) (\<lambda>h. Inr (\<not> h))))"

text \<open>One iteration of \<^verbatim>\<open>for page in range(1, total_pages + 1)\<close>.\<close>

definition page_body ::
  "runtime \<Rightarrow> network \<Rightarrow> payload \<Rightarrow> int \<Rightarrow> wstate \<Rightarrow> ctl \<times> wstate" where
  "page_body rt net pl page st =
     (case requests_post net (pl\<lparr>pl_page := page\<rparr>) None st of
        (RequestException, st1) \<Rightarrow> (ReqExc, st1)
      | (Response status body, st1) \<Rightarrow>
          (case body of
             None \<Rightarrow> (Normal, st1)
           | Some results \<Rightarrow>
               (case no_hits results of
                  Inl e \<Rightarrow> (Uncaught e, st1)
                | Inr True \<Rightarrow> (Normal, st1)
                | Inr False \<Rightarrow>
                    (case then_exn (then_exn (py_getitem results ''search'')
                                      (\<lambda>s. py_getitem s ''hits'')) py_iter of
                       Inl e \<Rightarrow> (Uncaught e, st1)
                     | Inr hits \<Rightarrow>
                         (case hit_loop rt (pl_day pl) (pl_party_size pl) hits
                                 (all_reservations st1) of
                            (None, acc) \<Rightarrow> (Normal, st1\<lparr>all_reservations := acc\<rparr>)
                          | (Some e, acc) \<Rightarrow> (Uncaught e, st1\<lparr>all_reservations := acc\<rparr>))))))"

fun page_loop ::
  "runtime \<Rightarrow> network \<Rightarrow> payload \<Rightarrow> int list \<Rightarrow> wstate \<Rightarrow> ctl \<times> wstate" where
  "page_loop rt net pl [] st = (Normal, st)"
| "page_loop rt net pl (page # pages) st =
     (case page_body rt net pl page st of
        (Normal, st1) \<Rightarrow> page_loop rt net pl pages st1
      | (c, st1) \<Rightarrow> (c, st1))"

text \<open>\<^verbatim>\<open>"meta" not in data or "search" not in data\<close>.\<close>

definition unexpected_structure :: "json \<Rightarrow> py_exn + bool" where
  "unexpected_structure data =
     then_exn (py_contains ''meta'' data) (\<lambda>m.
       if \<not> m then Inr True
       else then_exn (py_contains ''search'' data) (\<lambda>s. Inr (\<not> s)))"

text \<open>\<^verbatim>\<open>min(10, int(data["meta"].get("total_pages", 0)))\<close>.\<close>

definition read_total_pages :: "json \<Rightarrow> py_exn + int" where
  "read_total_pages data =
     then_exn (then_exn (then_exn (py_getitem data ''meta'')
                 (\<lambda>m. py_get m ''total_pages'' (JInt 0))) py_int) (\<lambda>n. Inr (min 10 n))"

text \<open>How one iteration of the retry loop ends: \<^verbatim>\<open>return\<close>, an uncaught exception, or
  on to the next attempt.\<close>

datatype step = Return "reservation list" | Raise py_exn | Next

text \<open>The \<^verbatim>\<open>try\<close> block of one attempt with its \<^verbatim>\<open>except\<close> clause.\<close>

definition attempt_request ::
  "runtime \<Rightarrow> network \<Rightarrow> payload \<Rightarrow> int \<Rightarrow> wstate \<Rightarrow> step \<times> wstate" where
  "attempt_request rt net pl attempt st =
     (case requests_post net pl (Some 10) st of
        (RequestException, st1) \<Rightarrow> (Next, time_sleep (retry_delay attempt) st1)
      | (Response status body, st1) \<Rightarrow>
          if status = 502 then (Next, time_sleep (retry_delay attempt) st1)
          else if status \<noteq> 200 then (Return [], st1)
          else
            (case body of
               None \<Rightarrow> (Return [], st1)
             | Some data \<Rightarrow>
                 (case unexpected_structure data of
                    Inl e \<Rightarrow> (Raise e, st1)
                  | Inr True \<Rightarrow> (Return [], st1)
                  | Inr False \<Rightarrow>
                      (case read_total_pages data of
                         Inl e \<Rightarrow> (Raise e, st1)
                       | Inr total_pages \<Rightarrow>
                           if total_pages = 0 then (Return [], st1)
                           else
                             (case page_loop rt net pl [1..total_pages] st1 of
                                (Normal, st2) \<Rightarrow> (Return (all_reservations st2), st2)
                              | (ReqExc, st2) \<Rightarrow> (Next, time_sleep (retry_delay attempt) st2)
                              | (Uncaught e, st2) \<Rightarrow> (Raise e, st2))))))"

text \<open>
  The payload of an attempt: built anew, with the parsed time filter when the target time
  is truthy (neither \<^verbatim>\<open>None\<close> nor the empty string). \<open>None\<close> is the \<^verbatim>\<open>except ValueError\<close>
  branch, where the source prints "Invalid time format" and returns.
\<close>

definition build_payload :: "string \<Rightarrow> string \<Rightarrow> int \<Rightarrow> string option \<Rightarrow> payload option" where
  "build_payload cuisine day party_size target_time =
     (let pl = \<lparr>pl_page = 1, pl_day = day, pl_party_size = party_size,
                pl_time_filter = None, pl_cuisine = cuisine\<rparr>
      in case target_time of
           None \<Rightarrow> Some pl
         | Some t \<Rightarrow>
             if t = [] then Some pl
             else
               (case strptime_12h t of
                  None \<Rightarrow> None
                | Some t24 \<Rightarrow> Some (pl\<lparr>pl_time_filter := Some t24\<rparr>)))"

text \<open>One iteration of \<^verbatim>\<open>for attempt in range(1, MAX_RETRIES + 1)\<close>.\<close>

definition attempt_body ::
  "runtime \<Rightarrow> network \<Rightarrow> string \<Rightarrow> string \<Rightarrow> int \<Rightarrow> string option \<Rightarrow> int \<Rightarrow> wstate
    \<Rightarrow> step \<times> wstate" where
  "attempt_body rt net cuisine day party_size target_time attempt st =
     (case build_payload cuisine day party_size target_time of
        None \<Rightarrow> (Return [], st)
      | Some pl \<Rightarrow> attempt_request rt net pl attempt st)"

text \<open>The retry loop; falling out of it is \<^verbatim>\<open>return []\<close> after "Giving up".\<close>

fun retry_loop ::
  "runtime \<Rightarrow> network \<Rightarrow> string \<Rightarrow> string \<Rightarrow> int \<Rightarrow> string option \<Rightarrow> int list \<Rightarrow> wstate
    \<Rightarrow> (py_exn + reservation list) \<times> wstate" where
  "retry_loop rt net cuisine day party_size target_time [] st = (Inr [], st)"
| "retry_loop rt net cuisine day party_size target_time (attempt # attempts) st =
     (case attempt_body rt net cuisine day party_size target_time attempt st of
        (Return rs, st1) \<Rightarrow> (Inr rs, st1)
      | (Raise e, st1) \<Rightarrow> (Inl e, st1)
      | (Next, st1) \<Rightarrow> retry_loop rt net cuisine day party_size target_time attempts st1)"

text \<open>
  The worker returns a list of records (\<open>Inr\<close>) or raises (\<open>Inl\<close>); the final state holds
  the trace of its requests and sleeps.
\<close>

definition fetch_cuisine_reservations ::
  "runtime \<Rightarrow> network \<Rightarrow> string \<Rightarrow> string \<Rightarrow> int \<Rightarrow> string option
    \<Rightarrow> (py_exn + reservation list) \<times> wstate" where
  "fetch_cuisine_reservations rt net cuisine day party_size target_time =
     retry_loop rt net cuisine day party_size target_time [1..MAX_RETRIES]
       \<lparr>trace = [], all_reservations = []\<rparr>"

section \<open>The coordinator: \<^verbatim>\<open>fetch_available_reservations\<close>\<close>

text \<open>
  \<^verbatim>\<open>pd.DataFrame(all_reservations)\<close> has one row per record, in list order.
  \<^verbatim>\<open>DataFrame.drop_duplicates(subset=[key])\<close> with the default \<^verbatim>\<open>keep="first"\<close>: a row is
  dropped when its key has been seen in an earlier row; the order of the rest is kept, and
  an empty frame stays empty.
\<close>

fun drop_seen :: "('a \<Rightarrow> 'k) \<Rightarrow> 'k list \<Rightarrow> 'a list \<Rightarrow> 'a list" where
  "drop_seen key seen [] = []"
| "drop_seen key seen (x # xs) =
     (if key x \<in> set seen then drop_seen key seen xs
      else x # drop_seen key (key x # seen) xs)"

definition drop_duplicates :: "('a \<Rightarrow> 'k) \<Rightarrow> 'a list \<Rightarrow> 'a list" where
  "drop_duplicates key xs = drop_seen key [] xs"

text \<open>
  The loop over \<^verbatim>\<open>as_completed(futures)\<close>: \<^verbatim>\<open>future.result()\<close> returns the worker's list or
  re-raises the worker's exception, which the \<^verbatim>\<open>except Exception\<close> clause swallows.
\<close>

fun collect_results :: "(py_exn + reservation list) list \<Rightarrow> reservation list \<Rightarrow> reservation list" where
  "collect_results [] acc = acc"
| "collect_results (Inr result # futures) acc = collect_results futures (acc @ result)"
| "collect_results (Inl e # futures) acc = collect_results futures acc"

text \<open>
  Each worker has its own view of the upstream, \<open>nets cuisine\<close>. The order in which the
  futures complete is not determined by the program: \<open>completion\<close> is that order, a
  permutation of \<open>CUISINES\<close>.
\<close>

definition merged_reservations ::
  "runtime \<Rightarrow> (string \<Rightarrow> network) \<Rightarrow> string list \<Rightarrow> string \<Rightarrow> int \<Rightarrow> string option
    \<Rightarrow> reservation list" where
  "merged_reservations rt nets completion day party_size target_time =
     collect_results
       (map (\<lambda>cuisine.
          fst (fetch_cuisine_reservations rt (nets cuisine) cuisine day party_size target_time))
        completion) []"

definition fetch_available_reservations ::
  "runtime \<Rightarrow> (string \<Rightarrow> network) \<Rightarrow> string list \<Rightarrow> string \<Rightarrow> int \<Rightarrow> string option
    \<Rightarrow> reservation list" where
  "fetch_available_reservations rt nets completion day party_size target_time =
     drop_duplicates Reservation_Link
       (merged_reservations rt nets completion day party_size target_time)"

text \<open>Every request the search issues: a worker is submitted for each cuisine.\<close>

definition all_posts ::
  "runtime \<Rightarrow> (string \<Rightarrow> network) \<Rightarrow> string \<Rightarrow> int \<Rightarrow> string option \<Rightarrow> event list" where
  "all_posts rt nets day party_size target_time =
     concat (map (\<lambda>cuisine.
       posts (snd (fetch_cuisine_reservations rt (nets cuisine) cuisine day party_size
                     target_time)))
      CUISINES)"

section \<open>Notions the properties below are stated with\<close>

text \<open>What a future contributes to the merged list: nothing when the worker raised.\<close>

fun contribution :: "py_exn + reservation list \<Rightarrow> reservation list" where
  "contribution (Inr result) = result"
| "contribution (Inl e) = []"

text \<open>The hits of a page whose body has the documented shape.\<close>

definition hits_of :: "json \<Rightarrow> json list option" where
  "hits_of results =
     (case results of
        JObj kvs \<Rightarrow>
          (case map_of kvs ''search'' of
             Some (JObj ss) \<Rightarrow>
               (case map_of ss ''hits'' of Some (JArr hs) \<Rightarrow> Some hs | _ \<Rightarrow> None)
           | _ \<Rightarrow> None)
      | _ \<Rightarrow> None)"

text \<open>
  A hit that lacks one of \<^verbatim>\<open>name\<close>, \<^verbatim>\<open>neighborhood\<close>, \<^verbatim>\<open>url_slug\<close>, \<^verbatim>\<open>_geoloc\<close>, or whose
  \<^verbatim>\<open>neighborhood\<close> is not a string.
\<close>

definition malformed_hit :: "json \<Rightarrow> bool" where
  "malformed_hit h =
     (case h of
        JObj kvs \<Rightarrow>
          map_of kvs ''name'' = None \<or>
          (case map_of kvs ''neighborhood'' of Some (JStr s) \<Rightarrow> False | _ \<Rightarrow> True) \<or>
          map_of kvs ''url_slug'' = None \<or>
          map_of kvs ''_geoloc'' = None
      | _ \<Rightarrow> False)"

definition bad_page :: "http_outcome \<Rightarrow> bool" where
  "bad_page out =
     (case out of
        Response status (Some results) \<Rightarrow>
          (case hits_of results of Some hs \<Rightarrow> list_ex malformed_hit hs | None \<Rightarrow> False)
      | _ \<Rightarrow> False)"

text \<open>The worker has received, in its pagination loop, a page with a malformed hit.\<close>

fun bad_page_event :: "event \<Rightarrow> bool" where
  "bad_page_event (Post pl None out) = bad_page out"
| "bad_page_event _ = False"

definition saw_bad :: "wstate \<Rightarrow> bool" where
  "saw_bad st = list_ex bad_page_event (trace st)"

section \<open>Example inputs\<close>

text \<open>
  A runtime that agrees with Python on every value the examples pass to it: the one
  timestamp their slots carry. Their slugs are strings, so \<open>repr_value\<close> is never called.
\<close>

definition example_runtime :: runtime where
  "example_runtime =
     \<lparr>repr_value = (\<lambda>v. []),
      localize_start = (\<lambda>s. if s = ''2024-06-01 18:00:00''
                             then Some (''2024-06-01'', ''06:00 PM'') else None)\<rparr>"

definition example_slot :: json where
  "example_slot =
     JObj [(''date'', JObj [(''start'', JStr ''2024-06-01 18:00:00'')]),
           (''config'', JObj [(''type'', JStr ''Dining Room'')])]"

text \<open>A well-formed hit with one slot, and the record the worker builds from it.\<close>

definition example_hit :: json where
  "example_hit =
     JObj [(''name'', JStr ''Lupa''), (''neighborhood'', JStr '' Soho ''),
           (''url_slug'', JStr ''lupa''), (''price_range_id'', JInt 2),
           (''cuisine'', JArr [JStr ''Italian'']),
           (''_geoloc'', JObj [(''lat'', JInt 40), (''lng'', JInt (- 74))]),
           (''availability'', JObj [(''slots'', JArr [example_slot])])]"

definition example_record :: reservation where
  "example_record =
     \<lparr>Venue_Name = JStr ''Lupa'', Neighborhood = ''Soho'', Rating = JStr ''N/A'',
      Total_Ratings = JStr ''N/A'', Price_Range = ''$$'', Cuisine_Type = JStr ''Italian'',
      Date = ''2024-06-01'', Time_NYC = ''06:00 PM'', Table_Size = 2,
      Dining_Type = JStr ''Dining Room'',
      Reservation_Link = ''https://resy.com/cities/new-york-ny/venues/lupa?date=2024-06-01&seats=2'',
      Latitude = JInt 40, Longitude = JInt (- 74), Icon_Image = JStr placeholder_image\<rparr>"

text \<open>The same venue as another category tags it.\<close>

definition example_hit_mediterranean :: json where
  "example_hit_mediterranean =
     JObj [(''name'', JStr ''Lupa''), (''neighborhood'', JStr '' Soho ''),
           (''url_slug'', JStr ''lupa''), (''price_range_id'', JInt 2),
           (''cuisine'', JArr [JStr ''Mediterranean'']),
           (''_geoloc'', JObj [(''lat'', JInt 40), (''lng'', JInt (- 74))]),
           (''availability'', JObj [(''slots'', JArr [example_slot])])]"

definition example_record_mediterranean :: reservation where
  "example_record_mediterranean = example_record\<lparr>Cuisine_Type := JStr ''Mediterranean''\<rparr>"

text \<open>A hit without \<^verbatim>\<open>url_slug\<close>.\<close>

definition example_hit_no_slug :: json where
  "example_hit_no_slug =
     JObj [(''name'', JStr ''Via Carota''), (''neighborhood'', JStr ''West Village''),
           (''_geoloc'', JObj [(''lat'', JInt 40), (''lng'', JInt (- 74))]),
           (''availability'', JObj [(''slots'', JArr [example_slot])])]"

definition page_doc :: "int \<Rightarrow> json list \<Rightarrow> json" where
  "page_doc n hits =
     JObj [(''meta'', JObj [(''total_pages'', JInt n)]),
           (''search'', JObj [(''hits'', JArr hits)])]"

definition ok_response :: "json \<Rightarrow> http_outcome" where
  "ok_response doc = Response 200 (Some doc)"

text \<open>An upstream with no availability, one that always answers 502 with an HTML body,
  one that always answers 500, one that cannot be reached, and one that always answers
  200 with the body \<^verbatim>\<open>null\<close>.\<close>

definition no_availability :: network where
  "no_availability n pl = ok_response (page_doc 0 [])"

definition always_502 :: network where
  "always_502 n pl = Response 502 None"

definition always_500 :: network where
  "always_500 n pl = Response 500 None"

definition unreachable :: network where
  "unreachable n pl = RequestException"

definition always_null :: network where
  "always_null n pl = ok_response JNull"

text \<open>
  An upstream with two pages, the first holding one venue with one slot; the worker's
  third request (its first fetch of page 2) meets a connection error.
\<close>

definition flaky_second_page :: network where
  "flaky_second_page n pl =
     (if n = 2 then RequestException
      else ok_response (page_doc 2 (if pl_page pl = 1 then [example_hit] else [])))"

text \<open>
  An upstream that reports 25 pages without hits; the worker's eleventh request (its
  fetch of page 10) meets a connection error.
\<close>

definition flaky_tenth_page :: network where
  "flaky_tenth_page n pl = (if n = 10 then RequestException else ok_response (page_doc 25 []))"

text \<open>An upstream that always reports 25 pages without hits.\<close>

definition many_pages :: network where
  "many_pages n pl = ok_response (page_doc 25 [])"

text \<open>An upstream with two pages that answers the fetch of page 2 with a 502.\<close>

definition second_page_502 :: network where
  "second_page_502 n pl =
     (if n = 2 then Response 502 None
      else ok_response (page_doc 2 (if pl_page pl = 1 then [example_hit] else [])))"

text \<open>An upstream with two pages, the second holding a hit without \<^verbatim>\<open>url_slug\<close>.\<close>

definition second_page_malformed :: network where
  "second_page_malformed n pl =
     ok_response (page_doc 2 (if pl_page pl = 1 then [example_hit] else [example_hit_no_slug]))"

text \<open>An upstream with one page holding the venue, under either tag.\<close>

definition one_page_italian :: network where
  "one_page_italian n pl = ok_response (page_doc 1 [example_hit])"

definition one_page_mediterranean :: network where
  "one_page_mediterranean n pl = ok_response (page_doc 1 [example_hit_mediterranean])"

text \<open>Views of the upstream per cuisine: all failing, all empty, and mixed.\<close>

definition mixed_failures :: "string \<Rightarrow> network" where
  "mixed_failures cuisine =
     (if cuisine = ''Italian'' then always_null
      else if cuisine = ''Sushi'' then always_502
      else if cuisine = ''Thai'' then always_500
      else no_availability)"

definition shared_venue :: "string \<Rightarrow> network" where
  "shared_venue cuisine =
     (if cuisine = ''Italian'' then one_page_italian
      else if cuisine = ''Mediterranean'' then one_page_mediterranean
      else no_availability)"

definition malformed_italian :: "string \<Rightarrow> network" where
  "malformed_italian cuisine =
     (if cuisine = ''Italian'' then second_page_malformed else no_availability)"

definition example_payload :: payload where
  "example_payload =
     \<lparr>pl_page = 1, pl_day = ''2024-06-01'', pl_party_size = 2, pl_time_filter = None,
      pl_cuisine = ''Italian''\<rparr>"

section \<open>The trace of a worker\<close>

lemma page_fetch_events:
  "list_all is_page_fetch evs \<Longrightarrow>
     concat (map sleep_of evs) = [] \<and> filter is_page_fetch evs = evs \<and> filter is_post evs = evs"
proof (induction evs)
  case Nil
  then show ?case by simp
next
  case (Cons ev evs)
  then show ?case by (cases ev rule: is_page_fetch.cases) simp_all
qed

lemma requests_post_eq:
  "requests_post net pl t st =
     (net (length (posts st)) pl,
      st\<lparr>trace := trace st @ [Post pl t (net (length (posts st)) pl)]\<rparr>)"
  by (simp add: requests_post_def Let_def)

lemma page_body_trace:
  "page_body rt net pl page st = (c, st1) \<Longrightarrow>
     \<exists>out. trace st1 = trace st @ [Post (pl\<lparr>pl_page := page\<rparr>) None out]"
  by (auto simp: page_body_def requests_post_eq
      split: prod.splits http_outcome.splits option.splits sum.splits bool.splits if_splits)

lemma page_loop_trace:
  "page_loop rt net pl pages st = (c, st1) \<Longrightarrow>
     \<exists>evs. trace st1 = trace st @ evs \<and> list_all is_page_fetch evs \<and>
        length evs \<le> length pages \<and> (c = Normal \<longrightarrow> length evs = length pages)"
proof (induction pages arbitrary: st)
  case Nil
  then show ?case by simp
next
  case (Cons page pages)
  obtain c0 st0 where b: "page_body rt net pl page st = (c0, st0)"
    by (cases "page_body rt net pl page st")
  from page_body_trace [OF b] obtain out
    where t0: "trace st0 = trace st @ [Post (pl\<lparr>pl_page := page\<rparr>) None out]" by blast
  show ?case
  proof (cases "c0 = Normal")
    case True
    with Cons.prems b have "page_loop rt net pl pages st0 = (c, st1)" by simp
    from Cons.IH [OF this] obtain evs where k: "trace st1 = trace st0 @ evs"
      "list_all is_page_fetch evs" "length evs \<le> length pages"
      "c = Normal \<longrightarrow> length evs = length pages"
      by blast
    show ?thesis
      by (rule exI [of _ "Post (pl\<lparr>pl_page := page\<rparr>) None out # evs"]) (use k t0 in simp)
  next
    case False
    with Cons.prems b have "c = c0" "st1 = st0" by (cases c0; simp)+
    with False t0 show ?thesis
      by (intro exI [of _ "[Post (pl\<lparr>pl_page := page\<rparr>) None out]"]) simp
  qed
qed

lemma read_total_pages_le: "read_total_pages data = Inr tp \<Longrightarrow> tp \<le> 10"
  by (auto simp: read_total_pages_def then_exn_def split: sum.splits)

lemma attempt_request_trace:
  assumes "attempt_request rt net pl a st = (r, st1)"
  shows "\<exists>out evs. length evs \<le> 10 \<and> list_all is_page_fetch evs \<and>
           trace st1 = trace st @ Post pl (Some 10) out # evs @
             (if r = Next then [Sleep (retry_delay a)] else [])"
proof -
  define out where "out = net (length (posts st)) pl"
  let ?st0 = "st\<lparr>trace := trace st @ [Post pl (Some 10) out]\<rparr>"
  have nopages: "trace st1 = trace st @ Post pl (Some 10) out #
      (if r = Next then [Sleep (retry_delay a)] else []) \<Longrightarrow> ?thesis"
    by (intro exI [of _ out] exI [of _ "[]"]) simp
  show ?thesis
  proof (cases out)
    case RequestException
    with assms show ?thesis
      by (intro nopages) (auto simp: attempt_request_def requests_post_eq time_sleep_def out_def)
  next
    case (Response status body)
    show ?thesis
    proof (cases "status = 200 \<and> (\<exists>data tp. body = Some data \<and>
              unexpected_structure data = Inr False \<and> read_total_pages data = Inr tp \<and> tp \<noteq> 0)")
      case False
      with assms Response show ?thesis
        by (intro nopages)
           (auto simp: attempt_request_def requests_post_eq time_sleep_def out_def
             split: option.splits sum.splits bool.splits if_splits)
    next
      case True
      then obtain data tp where d: "status = 200" "body = Some data"
        "unexpected_structure data = Inr False" "read_total_pages data = Inr tp" "tp \<noteq> 0"
        by blast
      obtain c st2 where l: "page_loop rt net pl [1..tp] ?st0 = (c, st2)"
        by (cases "page_loop rt net pl [1..tp] ?st0")
      from page_loop_trace [OF l] obtain evs where k: "trace st2 = trace ?st0 @ evs"
        "list_all is_page_fetch evs" "length evs \<le> length [1..tp]"
        by blast
      have len: "length evs \<le> 10"
        using read_total_pages_le [OF d(4)] k(3) by simp
      from assms Response d l
      have r: "(r, st1) = (case c of Normal \<Rightarrow> (Return (all_reservations st2), st2)
                 | ReqExc \<Rightarrow> (Next, time_sleep (retry_delay a) st2)
                 | Uncaught e \<Rightarrow> (Raise e, st2))"
        by (simp add: attempt_request_def requests_post_eq out_def)
      show ?thesis
        by (rule exI [of _ out], rule exI [of _ evs])
           (use r k(1,2) len in \<open>auto simp: time_sleep_def split: ctl.splits\<close>)
    qed
  qed
qed

lemma attempt_body_trace:
  assumes "attempt_body rt net cuisine day party_size target_time a st = (r, st1)"
  shows "\<exists>evs. length evs \<le> 10 \<and> list_all is_page_fetch evs \<and>
           filter is_page_fetch (trace st1) = filter is_page_fetch (trace st) @ evs \<and>
           concat (map sleep_of (trace st1)) =
             concat (map sleep_of (trace st)) @ (if r = Next then [retry_delay a] else [])"
proof (cases "build_payload cuisine day party_size target_time")
  case None
  with assms show ?thesis by (intro exI [of _ "[]"]) (auto simp: attempt_body_def)
next
  case (Some pl)
  with assms have "attempt_request rt net pl a st = (r, st1)" by (simp add: attempt_body_def)
  from attempt_request_trace [OF this] obtain out evs where e: "length evs \<le> 10"
    "list_all is_page_fetch evs"
    "trace st1 = trace st @ Post pl (Some 10) out # evs @
       (if r = Next then [Sleep (retry_delay a)] else [])"
    by blast
  show ?thesis
    by (rule exI [of _ evs]) (use e page_fetch_events [OF e(2)] in simp)
qed

lemma retry_loop_effect:
  "retry_loop rt net cuisine day party_size target_time attempts st = (res, st1) \<Longrightarrow>
     \<exists>k\<le>length attempts.
        sleeps st1 = sleeps st @ map retry_delay (take k attempts) \<and>
        (k = length attempts \<longrightarrow> res = Inr []) \<and>
        length (page_fetches st1) \<le> length (page_fetches st) + 10 * length attempts"
proof (induction attempts arbitrary: st)
  case Nil
  then show ?case by simp
next
  case (Cons a attempts)
  obtain r st0 where b: "attempt_body rt net cuisine day party_size target_time a st = (r, st0)"
    by (cases "attempt_body rt net cuisine day party_size target_time a st")
  from attempt_body_trace [OF b] obtain evs where e: "length evs \<le> 10"
    "page_fetches st0 = page_fetches st @ evs"
    "sleeps st0 = sleeps st @ (if r = Next then [retry_delay a] else [])"
    unfolding page_fetches_def sleeps_def by blast
  show ?case
  proof (cases "r = Next")
    case True
    with Cons.prems b
    have "retry_loop rt net cuisine day party_size target_time attempts st0 = (res, st1)"
      by simp
    from Cons.IH [OF this] obtain k where k: "k \<le> length attempts"
      "sleeps st1 = sleeps st0 @ map retry_delay (take k attempts)"
      "k = length attempts \<longrightarrow> res = Inr []"
      "length (page_fetches st1) \<le> length (page_fetches st0) + 10 * length attempts"
      by blast
    show ?thesis
      by (rule exI [of _ "Suc k"]) (use k e True in simp)
  next
    case False
    with Cons.prems b have "st1 = st0" by (cases r; simp)
    with False e show ?thesis
      by (intro exI [of _ 0]) simp
  qed
qed

lemma retry_delay_mono: "m \<le> n \<Longrightarrow> retry_delay m \<le> retry_delay n"
  by (simp add: retry_delay_def)

lemma attempts_list: "[1..MAX_RETRIES] = [1, 2, 3]"
  by (simp add: MAX_RETRIES_def upto.simps)

lemma worker_sleeps:
  "\<exists>k\<le>3. sleeps (snd (fetch_cuisine_reservations rt net cuisine day party_size target_time)) =
      map retry_delay (take k [1, 2, 3]) \<and>
      (k = 3 \<longrightarrow> fst (fetch_cuisine_reservations rt net cuisine day party_size target_time) = Inr [])"
proof -
  define st where "st = \<lparr>trace = [], all_reservations = []\<rparr>"
  obtain res st1 where w: "retry_loop rt net cuisine day party_size target_time [1, 2, 3] st = (res, st1)"
    by (cases "retry_loop rt net cuisine day party_size target_time [1, 2, 3] st")
  have f: "fetch_cuisine_reservations rt net cuisine day party_size target_time = (res, st1)"
    unfolding fetch_cuisine_reservations_def attempts_list using w by (simp only: st_def)
  have s: "sleeps st = []" by (simp add: st_def sleeps_def)
  from retry_loop_effect [OF w] obtain k where "k \<le> length [1, 2, 3 :: int]"
    "sleeps st1 = sleeps st @ map retry_delay (take k [1, 2, 3])"
    "k = length [1, 2, 3 :: int] \<longrightarrow> res = Inr []"
    by blast
  then show ?thesis
    unfolding f s by (intro exI [of _ k]) simp
qed

section \<open>Backoff\<close>

text \<open>
  C6. The delay slept after a failed attempt is \<open>retry_delay attempt\<close>, in the 502 branch
  and in the network-error branch alike, and it is non-decreasing in the attempt number:
  for attempt numbers \<open>m \<le> n\<close> the delay of \<open>m\<close> is at most the delay of \<open>n\<close>. In every
  run of the worker the delays it sleeps, in order, form a non-decreasing sequence.
\<close>

theorem backoff_delay_monotone:
  "m \<le> n \<Longrightarrow>
     retry_delay m \<le> retry_delay n \<and>
     sorted (sleeps (snd (fetch_cuisine_reservations rt net cuisine day party_size target_time)))"
proof -
  assume mn: "m \<le> n"
  obtain k where k:
    "sleeps (snd (fetch_cuisine_reservations rt net cuisine day party_size target_time)) =
      map retry_delay (take k [1, 2, 3])"
    using worker_sleeps by blast
  have "sorted (map retry_delay [1, 2, 3])" by (simp add: retry_delay_def)
  then have "sorted (take k (map retry_delay [1, 2, 3]))" by (rule sorted_wrt_take)
  then have "sorted (map retry_delay (take k [1, 2, 3]))" by (simp only: take_map)
  with k mn show ?thesis by (simp add: retry_delay_mono)
qed

theorem backoff_delay_monotone_witness:
  "(1::int) \<le> 3 \<and> retry_delay 1 \<le> retry_delay 3 \<and>
   sorted (sleeps (snd (fetch_cuisine_reservations example_runtime always_502
     ''Italian'' ''2024-06-01'' 2 None))) \<and>
   sleeps (snd (fetch_cuisine_reservations example_runtime always_502
     ''Italian'' ''2024-06-01'' 2 None)) = [3, 4, 5]"
proof -
  have h: "(1::int) \<le> 3" by simp
  have s: "sleeps (snd (fetch_cuisine_reservations example_runtime always_502
     ''Italian'' ''2024-06-01'' 2 None)) = [3, 4, 5]"
    by code_simp
  from backoff_delay_monotone [OF h, of example_runtime always_502 "''Italian''"
      "''2024-06-01''" 2 None] h s
  show ?thesis by simp
qed

section \<open>The merged list\<close>

lemma collect_results_eq: "collect_results fs acc = acc @ concat (map contribution fs)"
proof (induction fs arbitrary: acc)
  case Nil
  then show ?case by simp
next
  case (Cons f fs)
  then show ?case by (cases f) simp_all
qed

lemma merged_reservations_eq:
  "merged_reservations rt nets completion day party_size target_time =
     concat (map (\<lambda>cuisine. contribution
       (fst (fetch_cuisine_reservations rt (nets cuisine) cuisine day party_size target_time)))
       completion)"
  by (simp add: merged_reservations_def collect_results_eq comp_def)

lemma no_availability_worker:
  "fst (fetch_cuisine_reservations rt no_availability cuisine day party_size target_time) = Inr []"
proof (cases "build_payload cuisine day party_size target_time")
  case None
  then show ?thesis
    by (simp add: fetch_cuisine_reservations_def attempts_list attempt_body_def)
next
  case (Some pl)
  have "attempt_request rt no_availability pl 1 \<lparr>trace = [], all_reservations = []\<rparr> =
      (Return [], \<lparr>trace = [Post pl (Some 10) (ok_response (page_doc 0 []))],
         all_reservations = []\<rparr>)"
    by (simp add: attempt_request_def requests_post_eq no_availability_def ok_response_def
        page_doc_def unexpected_structure_def read_total_pages_def then_exn_def)
  with Some show ?thesis
    by (simp add: fetch_cuisine_reservations_def attempts_list attempt_body_def)
qed

section \<open>Exhausted retries and empty results\<close>

text \<open>
  C5, as amended. An attempt sleeps exactly when it failed transiently (a 502 on its
  first request, or a network error on any request), so a worker that has slept
  \<open>MAX_RETRIES\<close> times has failed transiently on all its attempts. It then returns the
  empty list, which is also what it returns when the upstream reports no availability:
  the returned value does not tell the two apart.
\<close>

theorem exhausted_retries_return_empty_list:
  "length (sleeps (snd (fetch_cuisine_reservations rt net cuisine day party_size target_time)))
     = nat MAX_RETRIES \<Longrightarrow>
   fst (fetch_cuisine_reservations rt net cuisine day party_size target_time) = Inr [] \<and>
   fst (fetch_cuisine_reservations rt net cuisine day party_size target_time) =
     fst (fetch_cuisine_reservations rt no_availability cuisine day party_size target_time)"
proof -
  assume len: "length (sleeps (snd (fetch_cuisine_reservations rt net cuisine day party_size
    target_time))) = nat MAX_RETRIES"
  obtain k where k: "k \<le> 3"
    "sleeps (snd (fetch_cuisine_reservations rt net cuisine day party_size target_time)) =
       map retry_delay (take k [1, 2, 3])"
    "k = 3 \<longrightarrow> fst (fetch_cuisine_reservations rt net cuisine day party_size target_time) = Inr []"
    using worker_sleeps by blast
  from len k(1,2) have "k = 3" by (simp add: MAX_RETRIES_def)
  with k(3) show ?thesis by (simp add: no_availability_worker)
qed

theorem exhausted_retries_return_empty_list_witness:
  "length (sleeps (snd (fetch_cuisine_reservations example_runtime always_502 ''Sushi''
      ''2024-06-01'' 2 (Some ''06:00 PM'')))) = nat MAX_RETRIES \<and>
   fst (fetch_cuisine_reservations example_runtime always_502 ''Sushi'' ''2024-06-01'' 2
      (Some ''06:00 PM'')) = Inr [] \<and>
   fst (fetch_cuisine_reservations example_runtime always_502 ''Sushi'' ''2024-06-01'' 2
      (Some ''06:00 PM'')) =
   fst (fetch_cuisine_reservations example_runtime no_availability ''Sushi'' ''2024-06-01'' 2
      (Some ''06:00 PM''))"
proof -
  have h: "length (sleeps (snd (fetch_cuisine_reservations example_runtime always_502 ''Sushi''
      ''2024-06-01'' 2 (Some ''06:00 PM'')))) = nat MAX_RETRIES"
    by code_simp
  from exhausted_retries_return_empty_list [OF h] h show ?thesis by blast
qed

text \<open>
  C5 as stated fails: against an upstream that cannot be reached the worker makes three
  requests, sleeps 3, 4 and 5 seconds, and returns the very value it returns for an
  upstream without availability.
\<close>

theorem exhausted_retries_counterexample:
  "sleeps (snd (fetch_cuisine_reservations example_runtime unreachable ''Sushi''
      ''2024-06-01'' 2 None)) = [3, 4, 5] \<and>
   length (posts (snd (fetch_cuisine_reservations example_runtime unreachable ''Sushi''
      ''2024-06-01'' 2 None))) = 3 \<and>
   fst (fetch_cuisine_reservations example_runtime unreachable ''Sushi'' ''2024-06-01'' 2 None)
     = Inr [] \<and>
   fst (fetch_cuisine_reservations example_runtime no_availability ''Sushi'' ''2024-06-01'' 2
      None) = Inr []"
  by code_simp

text \<open>
  C8, as amended. In any attempt whose first response has status 200 and reports zero
  total pages, the worker issues no page fetch and returns the empty list at once (the
  records of earlier attempts, if any, are not returned). The empty list is all it
  returns: no status accompanies it.
\<close>

theorem zero_pages_return_empty_list:
  assumes "build_payload cuisine day party_size target_time = Some pl"
    and "net (length (posts st)) pl = Response 200 (Some data)"
    and "unexpected_structure data = Inr False"
    and "read_total_pages data = Inr 0"
  shows "retry_loop rt net cuisine day party_size target_time (attempt # attempts) st =
           (Inr [], st\<lparr>trace := trace st @ [Post pl (Some 10) (Response 200 (Some data))]\<rparr>) \<and>
         page_fetches (snd (retry_loop rt net cuisine day party_size target_time
           (attempt # attempts) st)) = page_fetches st"
  using assms
  by (simp add: attempt_body_def attempt_request_def requests_post_eq page_fetches_def)

theorem zero_pages_return_empty_list_witness:
  "build_payload ''Italian'' ''2024-06-01'' 2 None = Some example_payload \<and>
   no_availability (length (posts \<lparr>trace = [], all_reservations = []\<rparr>)) example_payload =
     Response 200 (Some (page_doc 0 [])) \<and>
   unexpected_structure (page_doc 0 []) = Inr False \<and>
   read_total_pages (page_doc 0 []) = Inr 0 \<and>
   fetch_cuisine_reservations example_runtime no_availability ''Italian'' ''2024-06-01'' 2 None =
     (Inr [], \<lparr>trace = [Post example_payload (Some 10) (Response 200 (Some (page_doc 0 [])))],
              all_reservations = []\<rparr>)"
proof -
  have h1: "build_payload ''Italian'' ''2024-06-01'' 2 None = Some example_payload"
    by (simp add: build_payload_def example_payload_def)
  have h2: "no_availability (length (posts \<lparr>trace = [], all_reservations = []\<rparr>)) example_payload =
     Response 200 (Some (page_doc 0 []))"
    by (simp add: no_availability_def ok_response_def)
  have h3: "unexpected_structure (page_doc 0 []) = Inr False"
    by (simp add: unexpected_structure_def page_doc_def then_exn_def)
  have h4: "read_total_pages (page_doc 0 []) = Inr 0"
    by (simp add: read_total_pages_def page_doc_def then_exn_def)
  from zero_pages_return_empty_list [where net = no_availability
      and st = "\<lparr>trace = [], all_reservations = []\<rparr>" and rt = example_runtime
      and attempt = 1 and attempts = "[2, 3]", OF h1 h2 h3 h4] h1 h2 h3 h4
  show ?thesis
    by (simp add: fetch_cuisine_reservations_def attempts_list)
qed

text \<open>
  C8 as stated fails: the value returned for zero pages is the value returned for a
  failure, here an HTTP 500 on the first request.
\<close>

theorem zero_pages_counterexample:
  "fst (fetch_cuisine_reservations example_runtime no_availability ''Italian'' ''2024-06-01'' 2
      None) = Inr [] \<and>
   fst (fetch_cuisine_reservations example_runtime always_500 ''Italian'' ''2024-06-01'' 2 None)
      = Inr [] \<and>
   fetch_cuisine_reservations example_runtime always_500 ''Italian'' ''2024-06-01'' 2 None =
     (Inr [], \<lparr>trace = [Post example_payload (Some 10) (Response 500 None)],
              all_reservations = []\<rparr>)"
  by code_simp


section \<open>The time filter and the requests of a search\<close>

lemma invalid_time_worker:
  "t \<noteq> [] \<Longrightarrow> strptime_12h t = None \<Longrightarrow>
     fetch_cuisine_reservations rt net cuisine day party_size (Some t) =
       (Inr [], \<lparr>trace = [], all_reservations = []\<rparr>)"
  by (simp add: fetch_cuisine_reservations_def attempts_list attempt_body_def build_payload_def)

text \<open>
  C2, as amended. For every non-empty target time that does not parse as
  \<^verbatim>\<open>"%I:%M %p"\<close>, every worker returns the empty list before it makes any request, so the
  search issues no HTTP call and returns an empty result. The result is the ordinary empty
  result: no \<open>InvalidTimeFormat\<close> signal reaches the caller (a message is printed per
  cuisine). An empty target time is treated as absent and the search proceeds.
\<close>

theorem invalid_time_no_request:
  "t \<noteq> [] \<Longrightarrow> strptime_12h t = None \<Longrightarrow>
     fetch_cuisine_reservations rt net cuisine day party_size (Some t) =
       (Inr [], \<lparr>trace = [], all_reservations = []\<rparr>) \<and>
     all_posts rt nets day party_size (Some t) = [] \<and>
     fetch_available_reservations rt nets completion day party_size (Some t) = []"
proof -
  assume t: "t \<noteq> []" "strptime_12h t = None"
  have w: "\<And>net cuisine. fetch_cuisine_reservations rt net cuisine day party_size (Some t) =
       (Inr [], \<lparr>trace = [], all_reservations = []\<rparr>)"
    by (rule invalid_time_worker [OF t])
  have p: "all_posts rt nets day party_size (Some t) = []"
    by (simp add: all_posts_def w posts_def)
  have m: "merged_reservations rt nets completion day party_size (Some t) = []"
    by (simp add: merged_reservations_eq w)
  show ?thesis
    by (simp add: w p m fetch_available_reservations_def drop_duplicates_def)
qed

theorem invalid_time_no_request_witness:
  "''6pm'' \<noteq> [] \<and> strptime_12h ''6pm'' = None \<and>
   fetch_cuisine_reservations example_runtime one_page_italian ''Italian'' ''2024-06-01'' 2
     (Some ''6pm'') = (Inr [], \<lparr>trace = [], all_reservations = []\<rparr>) \<and>
   all_posts example_runtime (\<lambda>c. one_page_italian) ''2024-06-01'' 2 (Some ''6pm'') = [] \<and>
   fetch_available_reservations example_runtime (\<lambda>c. one_page_italian) CUISINES
     ''2024-06-01'' 2 (Some ''6pm'') = []"
proof -
  have h1: "''6pm'' \<noteq> []" by simp
  have h2: "strptime_12h ''6pm'' = None" by code_simp
  from invalid_time_no_request [OF h1 h2] h1 h2 show ?thesis by blast
qed

text \<open>
  C2 as stated fails twice. The empty string does not match the pattern, yet the search
  proceeds and makes its requests (one per cuisine here). And where the search does stop,
  for \<^verbatim>\<open>"6pm"\<close>, what it returns is what a well-formed search without availability
  returns.
\<close>

theorem invalid_time_counterexample:
  "strptime_12h [] = None \<and>
   length (all_posts example_runtime (\<lambda>c. no_availability) ''2024-06-01'' 2 (Some [])) = 15 \<and>
   fetch_available_reservations example_runtime (\<lambda>c. one_page_italian) CUISINES
     ''2024-06-01'' 2 (Some ''6pm'') =
   fetch_available_reservations example_runtime (\<lambda>c. no_availability) CUISINES
     ''2024-06-01'' 2 (Some ''06:00 PM'')"
  by code_simp

section \<open>What the coordinator returns\<close>

text \<open>
  C3, as amended. For every input and every combination of per-category outcomes the
  coordinator returns: an exception of a worker is swallowed and that category
  contributes nothing. What it returns is the de-duplicated list of the records of the
  categories that returned, and nothing else: no manifest of failed categories and no
  status. When every category failed or returned nothing, it is the plain empty list.
\<close>

theorem coordinator_result:
  "fetch_available_reservations rt nets completion day party_size target_time =
     drop_duplicates Reservation_Link
       (concat (map (\<lambda>cuisine. contribution
          (fst (fetch_cuisine_reservations rt (nets cuisine) cuisine day party_size target_time)))
        completion)) \<and>
   ((\<forall>cuisine \<in> set completion. contribution
        (fst (fetch_cuisine_reservations rt (nets cuisine) cuisine day party_size target_time)) = [])
    \<longrightarrow> fetch_available_reservations rt nets completion day party_size target_time = [])"
proof -
  have "(\<forall>cuisine \<in> set completion. contribution
        (fst (fetch_cuisine_reservations rt (nets cuisine) cuisine day party_size target_time)) = [])
    \<longrightarrow> merged_reservations rt nets completion day party_size target_time = []"
    by (simp add: merged_reservations_eq)
  then have "(\<forall>cuisine \<in> set completion. contribution
        (fst (fetch_cuisine_reservations rt (nets cuisine) cuisine day party_size target_time)) = [])
    \<longrightarrow> fetch_available_reservations rt nets completion day party_size target_time = []"
    by (simp add: fetch_available_reservations_def drop_duplicates_def)
  then show ?thesis
    by (simp add: fetch_available_reservations_def merged_reservations_eq)
qed

theorem coordinator_result_witness:
  "list_all (\<lambda>cuisine. contribution
      (fst (fetch_cuisine_reservations example_runtime (mixed_failures cuisine) cuisine
         ''2024-06-01'' 2 None)) = []) CUISINES \<and>
   fst (fetch_cuisine_reservations example_runtime (mixed_failures ''Italian'') ''Italian''
         ''2024-06-01'' 2 None) = Inl TypeError \<and>
   fetch_available_reservations example_runtime mixed_failures CUISINES ''2024-06-01'' 2 None = []"
proof -
  have h: "list_all (\<lambda>cuisine. contribution
      (fst (fetch_cuisine_reservations example_runtime (mixed_failures cuisine) cuisine
         ''2024-06-01'' 2 None)) = []) CUISINES"
    by code_simp
  then have b: "\<forall>cuisine \<in> set CUISINES. contribution
      (fst (fetch_cuisine_reservations example_runtime (mixed_failures cuisine) cuisine
         ''2024-06-01'' 2 None)) = []"
    by (simp only: list_all_iff)
  have e: "fst (fetch_cuisine_reservations example_runtime (mixed_failures ''Italian'') ''Italian''
         ''2024-06-01'' 2 None) = Inl TypeError"
    by code_simp
  from coordinator_result [of example_runtime mixed_failures CUISINES "''2024-06-01''" 2 None] b
  have "fetch_available_reservations example_runtime mixed_failures CUISINES ''2024-06-01'' 2 None
      = []"
    by blast
  with h e show ?thesis by blast
qed

text \<open>
  C3 as stated fails: when every category raises and when every category finds nothing,
  the coordinator returns one and the same value, the empty list, so the result carries
  neither a manifest of failed categories nor an empty-result status.
\<close>

theorem coordinator_manifest_counterexample:
  "list_all (\<lambda>cuisine. fst (fetch_cuisine_reservations example_runtime always_null cuisine
      ''2024-06-01'' 2 None) = Inl TypeError) CUISINES \<and>
   list_all (\<lambda>cuisine. fst (fetch_cuisine_reservations example_runtime no_availability cuisine
      ''2024-06-01'' 2 None) = Inr []) CUISINES \<and>
   fetch_available_reservations example_runtime (\<lambda>c. always_null) CUISINES ''2024-06-01'' 2 None =
   fetch_available_reservations example_runtime (\<lambda>c. no_availability) CUISINES ''2024-06-01'' 2
     None"
  by code_simp


section \<open>Pagination\<close>

lemma worker_page_fetches:
  "length (page_fetches (snd (fetch_cuisine_reservations rt net cuisine day party_size
      target_time))) \<le> 30"
proof -
  define st where "st = \<lparr>trace = [], all_reservations = []\<rparr>"
  obtain res st1 where w: "retry_loop rt net cuisine day party_size target_time [1, 2, 3] st = (res, st1)"
    by (cases "retry_loop rt net cuisine day party_size target_time [1, 2, 3] st")
  have f: "fetch_cuisine_reservations rt net cuisine day party_size target_time = (res, st1)"
    unfolding fetch_cuisine_reservations_def attempts_list using w by (simp only: st_def)
  have s: "page_fetches st = []" by (simp add: st_def page_fetches_def)
  from retry_loop_effect [OF w] s show ?thesis
    unfolding f by auto
qed

lemma many_pages_body:
  "page_body rt many_pages pl page st =
     (Normal, st\<lparr>trace := trace st @
        [Post (pl\<lparr>pl_page := page\<rparr>) None (ok_response (page_doc 25 []))]\<rparr>)"
  by (simp add: page_body_def requests_post_eq many_pages_def ok_response_def page_doc_def
      no_hits_def then_exn_def)

text \<open>A pass that does not run to its end has issued at least the request it ended on.\<close>

lemma page_loop_cut:
  assumes "page_loop rt net pl pages st = (c, st1)" and "c \<noteq> Normal"
  shows "length (page_fetches st) < length (page_fetches st1)"
proof (cases pages)
  case Nil
  with assms show ?thesis by simp
next
  case (Cons page rest)
  obtain c0 st0 where b: "page_body rt net pl page st = (c0, st0)"
    by (cases "page_body rt net pl page st")
  from page_body_trace [OF b] obtain out
    where "trace st0 = trace st @ [Post (pl\<lparr>pl_page := page\<rparr>) None out]" by blast
  then have l0: "length (page_fetches st0) = length (page_fetches st) + 1"
    by (simp add: page_fetches_def)
  show ?thesis
  proof (cases "c0 = Normal")
    case True
    with assms(1) Cons b have "page_loop rt net pl rest st0 = (c, st1)" by simp
    from page_loop_trace [OF this] obtain evs where "trace st1 = trace st0 @ evs" by blast
    then have "length (page_fetches st0) \<le> length (page_fetches st1)"
      by (simp add: page_fetches_def)
    with l0 show ?thesis by simp
  next
    case False
    with assms(1) Cons b have "st1 = st0" by (cases c0; simp)
    with l0 show ?thesis by simp
  qed
qed

text \<open>
  C7, as amended. The page count the worker reads is capped at 10. One pass of the
  pagination loop issues at most that many page fetches, and exactly that many (none for
  a negative count) when the pass runs to its end. A pass cut short by a network error or
  by an exception of a hit has issued at least one page fetch and at most that many: the
  request that met the error is among them, so a pass cut on its last page has issued the
  full count. A whole category search issues at most 30 page fetches.
\<close>

theorem page_fetches_per_pass:
  assumes "read_total_pages data = Inr total_pages"
    and "page_loop rt net pl [1..total_pages] st = (c, st1)"
  shows "total_pages \<le> 10 \<and>
         length (page_fetches st1) \<le> length (page_fetches st) + nat total_pages \<and>
         (c = Normal \<longrightarrow> length (page_fetches st1) = length (page_fetches st) + nat total_pages) \<and>
         (c \<noteq> Normal \<longrightarrow> length (page_fetches st) < length (page_fetches st1)) \<and>
         length (page_fetches (snd (fetch_cuisine_reservations rt net cuisine day party_size
           target_time))) \<le> 30"
proof -
  from page_loop_trace [OF assms(2)] obtain evs where e: "trace st1 = trace st @ evs"
    "list_all is_page_fetch evs" "length evs \<le> length [1..total_pages]"
    "c = Normal \<longrightarrow> length evs = length [1..total_pages]"
    by blast
  have "page_fetches st1 = page_fetches st @ evs"
    using e(1) page_fetch_events [OF e(2)] by (simp add: page_fetches_def)
  with e(3,4) read_total_pages_le [OF assms(1)] worker_page_fetches
    page_loop_cut [OF assms(2)]
  show ?thesis
    by simp
qed

theorem page_fetches_per_pass_witness:
  "read_total_pages (page_doc 25 []) = Inr 10 \<and>
   fst (page_loop example_runtime many_pages example_payload [1..10]
          \<lparr>trace = [], all_reservations = []\<rparr>) = Normal \<and>
   length (page_fetches (snd (page_loop example_runtime many_pages example_payload [1..10]
          \<lparr>trace = [], all_reservations = []\<rparr>))) = 10"
proof -
  let ?run = "page_loop example_runtime many_pages example_payload [1..10]
      \<lparr>trace = [], all_reservations = []\<rparr>"
  have h1: "read_total_pages (page_doc 25 []) = Inr 10" by code_simp
  have h2: "?run = (fst ?run, snd ?run)" by (rule surjective_pairing)
  have n: "fst ?run = Normal" by (simp add: many_pages_body upto.simps)
  from page_fetches_per_pass [OF h1 h2] n
  have e: "length (page_fetches (snd ?run)) =
      length (page_fetches \<lparr>trace = [], all_reservations = []\<rparr>) + nat 10"
    by blast
  have z: "length (page_fetches \<lparr>trace = [], all_reservations = []\<rparr>) + nat 10 = 10"
    by (simp add: page_fetches_def)
  have l: "length (page_fetches (snd ?run)) = 10"
    by (rule trans [OF e z])
  show ?thesis
    using h1 n l by (intro conjI)
qed

text \<open>
  A pass cut on its last page: after the first request, the upstream reports 25 pages and
  the fetch of page 10 meets a connection error; the pass has issued all 10 page fetches.
\<close>

lemma cut_pass_full_count:
  "fst (page_loop example_runtime flaky_tenth_page example_payload [1..10]
     \<lparr>trace = [Post example_payload (Some 10) (ok_response (page_doc 25 []))],
      all_reservations = []\<rparr>) = ReqExc \<and>
   length (page_fetches (snd (page_loop example_runtime flaky_tenth_page example_payload [1..10]
     \<lparr>trace = [Post example_payload (Some 10) (ok_response (page_doc 25 []))],
      all_reservations = []\<rparr>))) = 10"
  by code_simp

text \<open>
  C7 as stated fails: the upstream reports 25 pages and the fetch of page 10 meets a
  connection error once; the worker starts over and fetches pages 1 to 10 again, 20 page
  fetches in one category search.
\<close>

theorem page_fetches_counterexample:
  "read_total_pages (page_doc 25 []) = Inr 10 \<and>
   fst (fetch_cuisine_reservations example_runtime flaky_tenth_page ''Italian'' ''2024-06-01'' 2
      None) = Inr [] \<and>
   length (page_fetches (snd (fetch_cuisine_reservations example_runtime flaky_tenth_page
      ''Italian'' ''2024-06-01'' 2 None))) = 20 \<and>
   length (page_fetches (snd (fetch_cuisine_reservations example_runtime flaky_tenth_page
      ''Italian'' ''2024-06-01'' 2 None))) \<noteq> nat (min 10 25)"
  by code_simp

section \<open>Retrying with records already collected\<close>

lemma slot_loop_extends:
  "slot_loop rt day party_size v slots acc = (e, acc') \<Longrightarrow> \<exists>new. acc' = acc @ new"
proof (induction slots arbitrary: acc)
  case Nil
  then show ?case by simp
next
  case (Cons slot slots)
  show ?case
  proof (cases "slot_record rt day party_size v slot")
    case (Inl x)
    with Cons.prems show ?thesis by simp
  next
    case (Inr r)
    with Cons.prems have "slot_loop rt day party_size v slots (acc @ [r]) = (e, acc')" by simp
    from Cons.IH [OF this] show ?thesis by auto
  qed
qed

lemma hit_loop_extends:
  "hit_loop rt day party_size hits acc = (e, acc') \<Longrightarrow> \<exists>new. acc' = acc @ new"
proof (induction hits arbitrary: acc)
  case Nil
  then show ?case by simp
next
  case (Cons h hits)
  show ?case
  proof (cases "hit_fields h")
    case (Inl x)
    with Cons.prems show ?thesis by simp
  next
    case (Inr vs)
    obtain v slots where vs: "vs = (v, slots)" by (cases vs)
    obtain e0 acc0 where s: "slot_loop rt day party_size v slots acc = (e0, acc0)"
      by (cases "slot_loop rt day party_size v slots acc")
    from slot_loop_extends [OF s] obtain new0 where n0: "acc0 = acc @ new0" by blast
    show ?thesis
    proof (cases e0)
      case None
      with Cons.prems Inr vs s have "hit_loop rt day party_size hits acc0 = (e, acc')" by simp
      from Cons.IH [OF this] n0 show ?thesis by auto
    next
      case (Some x)
      with Cons.prems Inr vs s n0 show ?thesis by auto
    qed
  qed
qed

lemma page_body_extends:
  "page_body rt net pl page st = (c, st1) \<Longrightarrow>
     \<exists>new. all_reservations st1 = all_reservations st @ new"
  by (auto simp: page_body_def requests_post_eq
      split: prod.splits http_outcome.splits option.splits sum.splits bool.splits if_splits
      dest: hit_loop_extends)

lemma page_loop_extends:
  "page_loop rt net pl pages st = (c, st1) \<Longrightarrow>
     \<exists>new. all_reservations st1 = all_reservations st @ new"
proof (induction pages arbitrary: st)
  case Nil
  then show ?case by simp
next
  case (Cons page pages)
  obtain c0 st0 where b: "page_body rt net pl page st = (c0, st0)"
    by (cases "page_body rt net pl page st")
  from page_body_extends [OF b] obtain new0
    where n0: "all_reservations st0 = all_reservations st @ new0" by blast
  show ?case
  proof (cases "c0 = Normal")
    case True
    with Cons.prems b have "page_loop rt net pl pages st0 = (c, st1)" by simp
    from Cons.IH [OF this] n0 show ?thesis by auto
  next
    case False
    with Cons.prems b have "st1 = st0" by (cases c0; simp)
    with n0 show ?thesis by auto
  qed
qed

text \<open>Nothing in an attempt clears the list: a retry starts with the records collected so far.\<close>

lemma attempt_keeps_records:
  assumes "attempt_body rt net cuisine day party_size target_time attempt st = (r, st1)"
  shows "\<exists>new. all_reservations st1 = all_reservations st @ new"
proof (cases "build_payload cuisine day party_size target_time")
  case None
  with assms show ?thesis by (auto simp: attempt_body_def)
next
  case (Some pl)
  with assms have a: "attempt_request rt net pl attempt st = (r, st1)"
    by (simp add: attempt_body_def)
  then show ?thesis
    unfolding attempt_request_def requests_post_eq
    by (auto simp: time_sleep_def
        split: prod.splits http_outcome.splits option.splits sum.splits bool.splits if_splits
          ctl.splits
        dest!: page_loop_extends)
qed

text \<open>
  C10. The upstream has two pages and a single slot, on page 1. The first attempt
  collects the slot's record, meets a connection error on page 2 and ends with the record
  still in the list; the second attempt fetches pages 1 and 2 again and appends the record
  once more: the worker returns it twice.
\<close>

theorem retry_duplicates_records:
  "fst (attempt_body example_runtime flaky_second_page ''Italian'' ''2024-06-01'' 2 None 1
      \<lparr>trace = [], all_reservations = []\<rparr>) = Next \<and>
   all_reservations (snd (attempt_body example_runtime flaky_second_page ''Italian''
      ''2024-06-01'' 2 None 1 \<lparr>trace = [], all_reservations = []\<rparr>)) = [example_record] \<and>
   fst (fetch_cuisine_reservations example_runtime flaky_second_page ''Italian'' ''2024-06-01'' 2
      None) = Inr [example_record, example_record] \<and>
   fetched_pages (snd (fetch_cuisine_reservations example_runtime flaky_second_page ''Italian''
      ''2024-06-01'' 2 None)) = [1, 2, 1, 2] \<and>
   sleeps (snd (fetch_cuisine_reservations example_runtime flaky_second_page ''Italian''
      ''2024-06-01'' 2 None)) = [3]"
  by code_simp

section \<open>A transient status on a page fetch\<close>

text \<open>
  C4 does not hold of the code. The upstream has two pages and answers the fetch of page 2
  with a 502 (body not JSON): the worker neither sleeps nor asks again, it skips the page
  and returns the records of page 1. A 502 on the first request of an attempt is retried.
\<close>

theorem page_502_not_retried:
  "fst (fetch_cuisine_reservations example_runtime second_page_502 ''Italian'' ''2024-06-01'' 2
      None) = Inr [example_record] \<and>
   fetched_pages (snd (fetch_cuisine_reservations example_runtime second_page_502 ''Italian''
      ''2024-06-01'' 2 None)) = [1, 2] \<and>
   length (posts (snd (fetch_cuisine_reservations example_runtime second_page_502 ''Italian''
      ''2024-06-01'' 2 None))) = 3 \<and>
   sleeps (snd (fetch_cuisine_reservations example_runtime second_page_502 ''Italian''
      ''2024-06-01'' 2 None)) = [] \<and>
   length (posts (snd (fetch_cuisine_reservations example_runtime always_502 ''Italian''
      ''2024-06-01'' 2 None))) = 3 \<and>
   sleeps (snd (fetch_cuisine_reservations example_runtime always_502 ''Italian''
      ''2024-06-01'' 2 None)) = [3, 4, 5]"
  by code_simp


section \<open>De-duplication by reservation link\<close>

lemma drop_seen_keys:
  "set (map key (drop_seen key seen xs)) = set (map key xs) - set seen"
  by (induction xs arbitrary: seen) auto

lemma drop_seen_distinct: "distinct (map key (drop_seen key seen xs))"
  by (induction xs arbitrary: seen) (auto simp: drop_seen_keys simp del: set_map)

lemma drop_seen_find:
  "find (\<lambda>x. key x = k) (drop_seen key seen xs) =
     (if k \<in> set seen then None else find (\<lambda>x. key x = k) xs)"
  by (induction xs arbitrary: seen) auto

lemma distinct_count_one:
  "distinct (map key xs) \<Longrightarrow> k \<in> set (map key xs) \<Longrightarrow>
     length (filter (\<lambda>x. key x = k) xs) = 1"
proof (induction xs)
  case Nil
  then show ?case by simp
next
  case (Cons x xs)
  show ?case
  proof (cases "key x = k")
    case True
    from Cons.prems(1) have "key x \<notin> key ` set xs" by simp
    with True have "\<forall>y\<in>set xs. key y \<noteq> k" by blast
    then have "filter (\<lambda>y. key y = k) xs = []"
      by (simp add: filter_empty_conv)
    with True show ?thesis by simp
  next
    case False
    with Cons show ?thesis by auto
  qed
qed

text \<open>
  C1. In the result of the coordinator the reservation links are pairwise distinct, and
  for every record of the merged list (the workers' lists in completion order) the result
  holds exactly one record with that record's link: the first one with that link in the
  merged list.
\<close>

theorem reservation_links_unique:
  assumes "r \<in> set (merged_reservations rt nets completion day party_size target_time)"
  shows "distinct (map Reservation_Link
           (fetch_available_reservations rt nets completion day party_size target_time)) \<and>
         length (filter (\<lambda>x. Reservation_Link x = Reservation_Link r)
           (fetch_available_reservations rt nets completion day party_size target_time)) = 1 \<and>
         find (\<lambda>x. Reservation_Link x = Reservation_Link r)
           (fetch_available_reservations rt nets completion day party_size target_time) =
         find (\<lambda>x. Reservation_Link x = Reservation_Link r)
           (merged_reservations rt nets completion day party_size target_time)"
proof -
  let ?m = "merged_reservations rt nets completion day party_size target_time"
  have f: "fetch_available_reservations rt nets completion day party_size target_time =
      drop_seen Reservation_Link [] ?m"
    by (simp add: fetch_available_reservations_def drop_duplicates_def)
  have d: "distinct (map Reservation_Link (drop_seen Reservation_Link [] ?m))"
    by (rule drop_seen_distinct)
  have "Reservation_Link r \<in> set (map Reservation_Link ?m)"
    using assms by simp
  then have "Reservation_Link r \<in> set (map Reservation_Link (drop_seen Reservation_Link [] ?m))"
    by (simp only: drop_seen_keys list.set Diff_empty)
  from distinct_count_one [OF d this] d show ?thesis
    unfolding f by (simp add: drop_seen_find)
qed

theorem reservation_links_unique_witness:
  "merged_reservations example_runtime shared_venue (rev CUISINES) ''2024-06-01'' 2
     (Some ''06:00 PM'') = [example_record_mediterranean, example_record] \<and>
   Reservation_Link example_record_mediterranean = Reservation_Link example_record \<and>
   fetch_available_reservations example_runtime shared_venue (rev CUISINES) ''2024-06-01'' 2
     (Some ''06:00 PM'') = [example_record_mediterranean] \<and>
   length (filter (\<lambda>x. Reservation_Link x = Reservation_Link example_record)
     (fetch_available_reservations example_runtime shared_venue (rev CUISINES) ''2024-06-01'' 2
        (Some ''06:00 PM''))) = 1 \<and>
   find (\<lambda>x. Reservation_Link x = Reservation_Link example_record)
     (fetch_available_reservations example_runtime shared_venue (rev CUISINES) ''2024-06-01'' 2
        (Some ''06:00 PM'')) = Some example_record_mediterranean"
proof -
  have m: "merged_reservations example_runtime shared_venue (rev CUISINES) ''2024-06-01'' 2
     (Some ''06:00 PM'') = [example_record_mediterranean, example_record]"
    by code_simp
  have l: "Reservation_Link example_record_mediterranean = Reservation_Link example_record"
    by (simp add: example_record_mediterranean_def)
  have f: "fetch_available_reservations example_runtime shared_venue (rev CUISINES) ''2024-06-01'' 2
     (Some ''06:00 PM'') = [example_record_mediterranean]"
    by code_simp
  have h: "example_record \<in> set (merged_reservations example_runtime shared_venue (rev CUISINES)
     ''2024-06-01'' 2 (Some ''06:00 PM''))"
    unfolding m by simp
  from reservation_links_unique [OF h] m l f show ?thesis
    by simp
qed


section \<open>A malformed hit\<close>

lemma isl_then_exn1: "isl m \<Longrightarrow> isl (then_exn m f)"
  by (cases m) (simp_all add: then_exn_def)

lemma isl_then_exn2: "(\<And>x. isl (f x)) \<Longrightarrow> isl (then_exn m f)"
  by (cases m) (simp_all add: then_exn_def)

lemma hit_fields_malformed:
  assumes "malformed_hit h"
  shows "isl (hit_fields h)"
proof -
  from assms obtain kvs where h: "h = JObj kvs"
    by (cases h) (simp_all add: malformed_hit_def)
  from assms h consider
      (name) "map_of kvs ''name'' = None"
    | (nbh) "\<forall>s. map_of kvs ''neighborhood'' \<noteq> Some (JStr s)"
    | (slug) "map_of kvs ''url_slug'' = None"
    | (geo) "map_of kvs ''_geoloc'' = None"
    by (auto simp: malformed_hit_def split: option.splits json.splits)
  then show ?thesis
  proof cases
    case name
    then have n: "isl (py_getitem h ''name'')" by (simp add: h)
    show ?thesis
      unfolding hit_fields_def by (rule isl_then_exn1, rule n)
  next
    case nbh
    have n: "isl (then_exn (py_getitem h ''neighborhood'') py_strip_method)"
    proof (cases "map_of kvs ''neighborhood''")
      case None
      then show ?thesis by (simp add: h then_exn_def)
    next
      case (Some v)
      with nbh show ?thesis by (cases v) (simp_all add: h then_exn_def)
    qed
    show ?thesis
      unfolding hit_fields_def by (rule isl_then_exn2, rule isl_then_exn1, rule n)
  next
    case slug
    then have n: "isl (py_getitem h ''url_slug'')" by (simp add: h)
    show ?thesis
      unfolding hit_fields_def
      by (rule isl_then_exn2, rule isl_then_exn2, rule isl_then_exn1, rule n)
  next
    case geo
    then have "isl (py_getitem h ''_geoloc'')" by (simp add: h)
    then have n: "isl (then_exn (py_getitem h ''_geoloc'') (\<lambda>g. py_getitem g ''lat''))"
      by (rule isl_then_exn1)
    show ?thesis
      unfolding hit_fields_def
      by (rule isl_then_exn2, rule isl_then_exn2, rule isl_then_exn2, rule isl_then_exn2,
          rule isl_then_exn2, rule isl_then_exn2, rule isl_then_exn2, rule isl_then_exn1, rule n)
  qed
qed

lemma hit_loop_malformed:
  "list_ex malformed_hit hits \<Longrightarrow> \<exists>e acc'. hit_loop rt day party_size hits acc = (Some e, acc')"
proof (induction hits arbitrary: acc)
  case Nil
  then show ?case by simp
next
  case (Cons h hits)
  show ?case
  proof (cases "hit_fields h")
    case (Inl e)
    then show ?thesis by simp
  next
    case (Inr vs)
    obtain v slots where vs: "vs = (v, slots)" by (cases vs)
    from Inr hit_fields_malformed [of h] have "\<not> malformed_hit h" by auto
    with Cons.prems have rest: "list_ex malformed_hit hits" by simp
    obtain e0 acc0 where s: "slot_loop rt day party_size v slots acc = (e0, acc0)"
      by (cases "slot_loop rt day party_size v slots acc")
    show ?thesis
    proof (cases e0)
      case None
      with Inr vs s Cons.IH [OF rest, of acc0] show ?thesis by simp
    next
      case (Some e)
      with Inr vs s show ?thesis by simp
    qed
  qed
qed

lemma key_in_iff: "k \<in> fst ` set kvs \<longleftrightarrow> map_of kvs k \<noteq> None"
  by (simp add: map_of_eq_None_iff)

lemma hits_of_access:
  assumes "hits_of results = Some hs"
  shows "no_hits results = Inr False"
    and "then_exn (then_exn (py_getitem results ''search'') (\<lambda>s. py_getitem s ''hits''))
           py_iter = Inr hs"
proof -
  from assms obtain kvs ss where r: "results = JObj kvs" "map_of kvs ''search'' = Some (JObj ss)"
    "map_of ss ''hits'' = Some (JArr hs)"
    by (auto simp: hits_of_def split: json.splits option.splits)
  show "no_hits results = Inr False"
    by (simp add: r no_hits_def then_exn_def key_in_iff)
  show "then_exn (then_exn (py_getitem results ''search'') (\<lambda>s. py_getitem s ''hits''))
           py_iter = Inr hs"
    by (simp add: r then_exn_def)
qed

lemma page_body_bad:
  assumes "page_body rt net pl page st = (c, st1)"
    and "bad_page (net (length (posts st)) (pl\<lparr>pl_page := page\<rparr>))"
  shows "\<exists>e. c = Uncaught e"
proof -
  from assms(2) obtain status results hs
    where out: "net (length (posts st)) (pl\<lparr>pl_page := page\<rparr>) = Response status (Some results)"
      and hs: "hits_of results = Some hs" "list_ex malformed_hit hs"
    by (auto simp: bad_page_def split: http_outcome.splits option.splits)
  from hit_loop_malformed [OF hs(2)] obtain e acc'
    where l: "hit_loop rt (pl_day pl) (pl_party_size pl) hs (all_reservations st) = (Some e, acc')"
    by blast
  from assms(1) show ?thesis
    by (auto simp: page_body_def requests_post_eq out hits_of_access [OF hs(1)] l)
qed

lemma page_body_trace_exact:
  "page_body rt net pl page st = (c, st1) \<Longrightarrow>
     trace st1 = trace st @ [Post (pl\<lparr>pl_page := page\<rparr>) None
       (net (length (posts st)) (pl\<lparr>pl_page := page\<rparr>))]"
  by (auto simp: page_body_def requests_post_eq
      split: prod.splits http_outcome.splits option.splits sum.splits bool.splits if_splits)

lemma page_body_saw_bad:
  assumes "page_body rt net pl page st = (c, st1)" and "\<not> saw_bad st" and "saw_bad st1"
  shows "\<exists>e. c = Uncaught e"
proof -
  from page_body_trace_exact [OF assms(1)] assms(2,3)
  have "bad_page (net (length (posts st)) (pl\<lparr>pl_page := page\<rparr>))"
    by (simp add: saw_bad_def)
  with assms(1) show ?thesis by (rule page_body_bad)
qed

lemma page_loop_saw_bad:
  "page_loop rt net pl pages st = (c, st1) \<Longrightarrow> \<not> saw_bad st \<Longrightarrow> saw_bad st1 \<Longrightarrow>
     \<exists>e. c = Uncaught e"
proof (induction pages arbitrary: st)
  case Nil
  then show ?case by simp
next
  case (Cons page pages)
  obtain c0 st0 where b: "page_body rt net pl page st = (c0, st0)"
    by (cases "page_body rt net pl page st")
  show ?case
  proof (cases "c0 = Normal")
    case True
    with Cons.prems(1) b have l: "page_loop rt net pl pages st0 = (c, st1)" by simp
    from page_body_saw_bad [OF b Cons.prems(2)] True have "\<not> saw_bad st0" by auto
    from Cons.IH [OF l this Cons.prems(3)] show ?thesis .
  next
    case False
    with Cons.prems(1) b have e: "c = c0" "st1 = st0" by (cases c0; simp)+
    from page_body_saw_bad [OF b Cons.prems(2)] Cons.prems(3) e show ?thesis by simp
  qed
qed

lemma attempt_request_saw_bad:
  assumes "attempt_request rt net pl a st = (r, st1)" and "\<not> saw_bad st" and "saw_bad st1"
  shows "\<exists>e. r = Raise e"
proof -
  define out where "out = net (length (posts st)) pl"
  let ?st0 = "st\<lparr>trace := trace st @ [Post pl (Some 10) out]\<rparr>"
  have st0: "\<not> saw_bad ?st0" using assms(2) by (simp add: saw_bad_def)
  have nopages: "trace st1 = trace ?st0 \<or> trace st1 = trace ?st0 @ [Sleep (retry_delay a)]
      \<Longrightarrow> False"
    using assms(3) st0 by (auto simp: saw_bad_def)
  show ?thesis
  proof (cases out)
    case RequestException
    with assms(1) have "trace st1 = trace ?st0 @ [Sleep (retry_delay a)]"
      by (auto simp: attempt_request_def requests_post_eq time_sleep_def out_def)
    with nopages show ?thesis by blast
  next
    case (Response status body)
    show ?thesis
    proof (cases "status = 200 \<and> (\<exists>data tp. body = Some data \<and>
              unexpected_structure data = Inr False \<and> read_total_pages data = Inr tp \<and> tp \<noteq> 0)")
      case False
      with assms(1) Response
      have "(\<exists>e. r = Raise e) \<or> trace st1 = trace ?st0 \<or>
          trace st1 = trace ?st0 @ [Sleep (retry_delay a)]"
        by (auto simp: attempt_request_def requests_post_eq time_sleep_def out_def
             split: option.splits sum.splits bool.splits if_splits)
      with nopages show ?thesis by blast
    next
      case True
      then obtain data tp where d: "status = 200" "body = Some data"
        "unexpected_structure data = Inr False" "read_total_pages data = Inr tp" "tp \<noteq> 0"
        by blast
      obtain c st2 where l: "page_loop rt net pl [1..tp] ?st0 = (c, st2)"
        by (cases "page_loop rt net pl [1..tp] ?st0")
      from assms(1) Response d l
      have r: "(r, st1) = (case c of Normal \<Rightarrow> (Return (all_reservations st2), st2)
                 | ReqExc \<Rightarrow> (Next, time_sleep (retry_delay a) st2)
                 | Uncaught e \<Rightarrow> (Raise e, st2))"
        by (simp add: attempt_request_def requests_post_eq out_def)
      have "saw_bad st2"
        using r assms(3) by (cases c) (auto simp: time_sleep_def saw_bad_def)
      from page_loop_saw_bad [OF l st0 this] r show ?thesis by auto
    qed
  qed
qed

lemma retry_loop_saw_bad:
  "retry_loop rt net cuisine day party_size target_time attempts st = (res, st1) \<Longrightarrow>
     \<not> saw_bad st \<Longrightarrow> saw_bad st1 \<Longrightarrow> \<exists>e. res = Inl e"
proof (induction attempts arbitrary: st)
  case Nil
  then show ?case by simp
next
  case (Cons a attempts)
  obtain r st0 where b: "attempt_body rt net cuisine day party_size target_time a st = (r, st0)"
    by (cases "attempt_body rt net cuisine day party_size target_time a st")
  have raise: "saw_bad st0 \<Longrightarrow> \<exists>e. r = Raise e"
  proof (cases "build_payload cuisine day party_size target_time")
    case None
    assume "saw_bad st0"
    with None b Cons.prems(2) show ?thesis by (auto simp: attempt_body_def)
  next
    case (Some pl)
    assume s: "saw_bad st0"
    from Some b have "attempt_request rt net pl a st = (r, st0)" by (simp add: attempt_body_def)
    from attempt_request_saw_bad [OF this Cons.prems(2) s] show ?thesis .
  qed
  show ?case
  proof (cases "r = Next")
    case True
    with Cons.prems(1) b
    have l: "retry_loop rt net cuisine day party_size target_time attempts st0 = (res, st1)"
      by simp
    from raise True have "\<not> saw_bad st0" by auto
    from Cons.IH [OF l this Cons.prems(3)] show ?thesis .
  next
    case False
    with Cons.prems(1) b have e: "st1 = st0" by (cases r; simp)
    with raise Cons.prems(3) obtain x where "r = Raise x" by blast
    with Cons.prems(1) b show ?thesis by auto
  qed
qed

lemma concat_map_filter_nil:
  "g c = [] \<Longrightarrow> concat (map g (filter (\<lambda>x. x \<noteq> c) xs)) = concat (map g xs)"
  by (induction xs) auto

text \<open>
  C9. If the worker of a cuisine receives, in its pagination loop, a page among whose
  hits one lacks \<^verbatim>\<open>name\<close>, \<^verbatim>\<open>neighborhood\<close>, \<^verbatim>\<open>url_slug\<close> or \<^verbatim>\<open>_geoloc\<close> (or has a
  \<^verbatim>\<open>neighborhood\<close> that is not a string), the worker raises, and the coordinator returns
  what it would return had that cuisine not been searched at all: every record of the
  cuisine is lost, those of earlier hits and earlier pages included.
\<close>

theorem malformed_hit_discards_category:
  assumes "saw_bad (snd (fetch_cuisine_reservations rt (nets cuisine) cuisine day party_size
    target_time))"
  shows "(\<exists>e. fst (fetch_cuisine_reservations rt (nets cuisine) cuisine day party_size
            target_time) = Inl e) \<and>
         fetch_available_reservations rt nets completion day party_size target_time =
         fetch_available_reservations rt nets (filter (\<lambda>c. c \<noteq> cuisine) completion) day
           party_size target_time"
proof -
  define st where "st = \<lparr>trace = [], all_reservations = []\<rparr>"
  obtain res st1
    where w: "retry_loop rt (nets cuisine) cuisine day party_size target_time [1, 2, 3] st = (res, st1)"
    by (cases "retry_loop rt (nets cuisine) cuisine day party_size target_time [1, 2, 3] st")
  have f: "fetch_cuisine_reservations rt (nets cuisine) cuisine day party_size target_time = (res, st1)"
    unfolding fetch_cuisine_reservations_def attempts_list using w by (simp only: st_def)
  have s: "\<not> saw_bad st" by (simp add: st_def saw_bad_def)
  from assms have "saw_bad st1" by (simp add: f)
  from retry_loop_saw_bad [OF w s this] obtain e where e: "res = Inl e" by blast
  have c: "contribution (fst (fetch_cuisine_reservations rt (nets cuisine) cuisine day party_size
      target_time)) = []"
    by (simp add: f e)
  have "merged_reservations rt nets completion day party_size target_time =
      merged_reservations rt nets (filter (\<lambda>c. c \<noteq> cuisine) completion) day party_size target_time"
    unfolding merged_reservations_eq
    by (rule concat_map_filter_nil [where c = cuisine and g = "\<lambda>cuisine. contribution
          (fst (fetch_cuisine_reservations rt (nets cuisine) cuisine day party_size target_time))",
        OF c, symmetric])
  then show ?thesis
    by (simp add: f e fetch_available_reservations_def)
qed

theorem malformed_hit_discards_category_witness:
  "saw_bad (snd (fetch_cuisine_reservations example_runtime (malformed_italian ''Italian'')
      ''Italian'' ''2024-06-01'' 2 None)) \<and>
   all_reservations (snd (fetch_cuisine_reservations example_runtime
      (malformed_italian ''Italian'') ''Italian'' ''2024-06-01'' 2 None)) = [example_record] \<and>
   fst (fetch_cuisine_reservations example_runtime (malformed_italian ''Italian'')
      ''Italian'' ''2024-06-01'' 2 None) = Inl KeyError \<and>
   fetch_available_reservations example_runtime malformed_italian CUISINES ''2024-06-01'' 2 None
     = fetch_available_reservations example_runtime malformed_italian
         (filter (\<lambda>c. c \<noteq> ''Italian'') CUISINES) ''2024-06-01'' 2 None \<and>
   fetch_available_reservations example_runtime malformed_italian CUISINES ''2024-06-01'' 2 None
     = []"
proof -
  have h: "saw_bad (snd (fetch_cuisine_reservations example_runtime (malformed_italian ''Italian'')
      ''Italian'' ''2024-06-01'' 2 None))"
    by code_simp
  have a: "all_reservations (snd (fetch_cuisine_reservations example_runtime
      (malformed_italian ''Italian'') ''Italian'' ''2024-06-01'' 2 None)) = [example_record]"
    by code_simp
  have e: "fst (fetch_cuisine_reservations example_runtime (malformed_italian ''Italian'')
      ''Italian'' ''2024-06-01'' 2 None) = Inl KeyError"
    by code_simp
  have r: "fetch_available_reservations example_runtime malformed_italian CUISINES ''2024-06-01''
      2 None = []"
    by code_simp
  from malformed_hit_discards_category [where nets = malformed_italian
      and cuisine = "''Italian''" and completion = CUISINES, OF h]
  have "fetch_available_reservations example_runtime malformed_italian CUISINES ''2024-06-01'' 2
      None = fetch_available_reservations example_runtime malformed_italian
         (filter (\<lambda>c. c \<noteq> ''Italian'') CUISINES) ''2024-06-01'' 2 None"
    by (rule conjunct2)
  with h a e r show ?thesis by (intro conjI)
qed


end
